theory Spec2Isabelle
  imports Main "HOL-Library.Word"
begin

section \<open>Scheduler operator registry (drivers/volume/portworx/schedops)\<close>

text \<open>
  The package keeps one process-wide map from scheduler names to drivers, created empty
  by \<^verbatim>\<open>make(map[string]Driver)\<close>. A \<^verbatim>\<open>Driver\<close> is a Go interface value, so it may
  be nil: it is modelled as an option over an arbitrary type of implementations. The
  state of the package is the map together with the lines \<^verbatim>\<open>Register\<close> logs.
\<close>

type_synonym 'd Driver = "'d option"

record ErrNotFound =
  ErrNotFound_ID :: string
  ErrNotFound_Type :: string

record 'd schedops =
  schedOpsRegistry :: "string \<rightharpoonup> 'd Driver"
  logrus_Info :: "string list"

definition schedops_init :: "'d schedops" where
  "schedops_init = \<lparr>schedOpsRegistry = Map.empty, logrus_Info = []\<rparr>"

text \<open>\<^verbatim>\<open>Register\<close> logs the name, stores the driver under it and returns a nil error.\<close>

definition Register :: "string \<Rightarrow> 'd Driver \<Rightarrow> 'd schedops \<Rightarrow> ErrNotFound option \<times> 'd schedops" where
  "Register name d st =
     (let st1 = st\<lparr>logrus_Info := logrus_Info st @ [''Registering portworx scheduler operator: '' @ name]\<rparr>;
          st2 = st1\<lparr>schedOpsRegistry := (schedOpsRegistry st1)(name \<mapsto> d)\<rparr>
      in (None, st2))"

text \<open>\<^verbatim>\<open>Get\<close> returns the pair (driver, error) of the source; it does not change the state.\<close>

definition Get :: "string \<Rightarrow> 'd schedops \<Rightarrow> 'd Driver \<times> ErrNotFound option" where
  "Get name st =
     (case schedOpsRegistry st name of
        Some d \<Rightarrow> (d, None)
      | None \<Rightarrow> (None, Some \<lparr>ErrNotFound_ID = name, ErrNotFound_Type = ''Portworx Scheduler Operator''\<rparr>))"

text \<open>A run of the program up to some point: the registrations made so far, in order.\<close>

fun Register_all :: "(string \<times> 'd Driver) list \<Rightarrow> 'd schedops \<Rightarrow> 'd schedops" where
  "Register_all [] st = st"
| "Register_all ((name, d) # rest) st = Register_all rest (snd (Register name d st))"

section \<open>Kubernetes helpers (package k8sutils): data\<close>

text \<open>
  The resources of the external API, with the fields the package reads. Go strings are
  byte strings; \<^verbatim>\<open>int32\<close> is a 32-bit word; a pointer field or a map that may be nil
  is an option. Pointers passed as arguments and resources returned with a nil error are
  taken to be non-nil.
\<close>

record OwnerReference =
  owner_Name :: string

text \<open>
  The three pointers of a container state; of what they point to, a waiting or terminated
  state keeps its reason and a running state its start time.
\<close>

record ContainerState =
  Waiting :: "string option"
  Running :: "string option"
  Terminated :: "string option"

record ContainerStatus =
  cs_Name :: string
  cs_State :: ContainerState

record Pod =
  pod_Name :: string
  pod_Namespace :: string
  pod_OwnerReferences :: "OwnerReference list"
  InitContainerStatuses :: "ContainerStatus list"
  ContainerStatuses :: "ContainerStatus list"

record ReplicaSet =
  rs_Name :: string
  rs_Namespace :: string
  rs_OwnerReferences :: "OwnerReference list"

record Deployment =
  dep_Name :: string
  dep_Namespace :: string
  Spec_Replicas :: "32 word option"
  AvailableReplicas :: "32 word"
  ReadyReplicas :: "32 word"

record PersistentVolumeClaim =
  pvc_Name :: string
  pvc_Namespace :: string
  pvc_Phase :: string

record StorageClass =
  sc_Name :: string

record NodeCondition =
  cond_Type :: string
  cond_Status :: string
  cond_Message :: string
  cond_Reason :: string

record Node =
  node_Name :: string
  Labels :: "(string \<rightharpoonup> string) option"
  Conditions :: "NodeCondition list"

text \<open>Constants of the external API package \<^verbatim>\<open>k8s.io/client-go/pkg/api/v1\<close>.\<close>

definition NodeReady :: string where "NodeReady = ''Ready''"
definition NodeOutOfDisk :: string where "NodeOutOfDisk = ''OutOfDisk''"
definition NodeMemoryPressure :: string where "NodeMemoryPressure = ''MemoryPressure''"
definition NodeDiskPressure :: string where "NodeDiskPressure = ''DiskPressure''"
definition NodeNetworkUnavailable :: string where "NodeNetworkUnavailable = ''NetworkUnavailable''"
definition NodeInodePressure :: string where "NodeInodePressure = ''InodePressure''"
definition ConditionTrue :: string where "ConditionTrue = ''True''"
definition ConditionFalse :: string where "ConditionFalse = ''False''"
definition ClaimBound :: string where "ClaimBound = ''Bound''"

definition k8sLabelUpdateMaxRetries :: nat where
  "k8sLabelUpdateMaxRetries = 5"

definition Second :: int where "Second = 1000000000"
definition Minute :: int where "Minute = 60 * Second"

text \<open>
  A Go slice is nil or holds elements: \<^verbatim>\<open>var result []T\<close> is nil, \<^verbatim>\<open>append\<close> to nil
  gives a slice that is not nil, \<^verbatim>\<open>len\<close> of nil is 0 and ranging over nil runs no
  iteration.
\<close>

type_synonym 'a slice = "'a list option"

definition slice_append :: "'a slice \<Rightarrow> 'a \<Rightarrow> 'a slice" where
  "slice_append sl x = (case sl of None \<Rightarrow> Some [x] | Some xs \<Rightarrow> Some (xs @ [x]))"

definition slice_elems :: "'a slice \<Rightarrow> 'a list" where
  "slice_elems sl = (case sl of None \<Rightarrow> [] | Some xs \<Rightarrow> xs)"

definition slice_len :: "'a slice \<Rightarrow> nat" where
  "slice_len sl = length (slice_elems sl)"

text \<open>
  Errors. An error of the external client is known by its text (\<^verbatim>\<open>err.Error()\<close>).
  \<^verbatim>\<open>fmt.Sprintf\<close> and \<^verbatim>\<open>fmt.Errorf\<close> are kept as the format string with the
  arguments it is applied to.
\<close>

datatype error =
    ApiError string
  | ErrK8SApiAccountNotSet
  | Errorf fmt
  | ErrAppNotReady string fmt
  | ErrAppNotTerminated string fmt
  | ErrPVCNotReady string fmt
and fmt_arg =
    V_string string
  | V_int32 "32 word"
  | V_error "error option"
  | V_pods "Pod slice"
and fmt =
    Sprintf string "fmt_arg list"

text \<open>A function returns, or panics (nil pointer dereference, write to a nil map).\<close>

datatype 'a outcome = Return 'a | Panic

section \<open>The external API\<close>

text \<open>
  The external collaborators are a state machine over an arbitrary state \<open>'s\<close>: every call
  takes the state of the world and returns a response and the next state, so that two
  reads of one resource may differ. Every call made is appended, with its arguments and
  response, to a log that the model carries beside the state.
\<close>

datatype rest_Config = rest_Config
datatype Clientset = Clientset

datatype call =
    Call_InClusterConfig "string + rest_Config"
  | Call_NewForConfig "string + Clientset option"
  | Call_Nodes_Get string "string + Node"
  | Call_Nodes_Update Node "string + Node"
  | Call_Deployments_Get string string "string + Deployment"
  | Call_ReplicaSets_List string "string + ReplicaSet list"
  | Call_Pods_List string "string + Pod list"
  | Call_PersistentVolumeClaims_Get string string "string + PersistentVolumeClaim"
  | Call_StorageClasses_Get string "string + StorageClass"

record 's k8s_api =
  rest_InClusterConfig :: "'s \<Rightarrow> (string + rest_Config) \<times> 's"
  kubernetes_NewForConfig :: "rest_Config \<Rightarrow> 's \<Rightarrow> (string + Clientset option) \<times> 's"
  Nodes_Get :: "string \<Rightarrow> 's \<Rightarrow> (string + Node) \<times> 's"
  Nodes_Update :: "Node \<Rightarrow> 's \<Rightarrow> (string + Node) \<times> 's"
  Deployments_Get :: "string \<Rightarrow> string \<Rightarrow> 's \<Rightarrow> (string + Deployment) \<times> 's"
  ReplicaSets_List :: "string \<Rightarrow> 's \<Rightarrow> (string + ReplicaSet list) \<times> 's"
  Pods_List :: "string \<Rightarrow> 's \<Rightarrow> (string + Pod list) \<times> 's"
  PersistentVolumeClaims_Get :: "string \<Rightarrow> string \<Rightarrow> 's \<Rightarrow> (string + PersistentVolumeClaim) \<times> 's"
  StorageClasses_Get :: "string \<Rightarrow> 's \<Rightarrow> (string + StorageClass) \<times> 's"

type_synonym 's world = "'s \<times> call list"

definition api_call :: "('s \<Rightarrow> 'r \<times> 's) \<Rightarrow> ('r \<Rightarrow> call) \<Rightarrow> 's world \<Rightarrow> 'r \<times> 's world" where
  "api_call f ev w = (case f (fst w) of (r, s') \<Rightarrow> (r, (s', snd w @ [ev r])))"

section \<open>Kubernetes helpers: operations\<close>

definition loadClientFromServiceAccount ::
  "'s k8s_api \<Rightarrow> 's world \<Rightarrow> (Clientset option \<times> error option) \<times> 's world" where
  "loadClientFromServiceAccount api w =
     (case api_call (rest_InClusterConfig api) Call_InClusterConfig w of
        (Inl err, w1) \<Rightarrow> ((None, Some (ApiError err)), w1)
      | (Inr config, w1) \<Rightarrow>
          (case api_call (kubernetes_NewForConfig api config) Call_NewForConfig w1 of
             (Inl err, w2) \<Rightarrow> ((None, Some (ApiError err)), w2)
           | (Inr k8sClient, w2) \<Rightarrow> ((k8sClient, None), w2)))"

definition GetK8sClient ::
  "'s k8s_api \<Rightarrow> 's world \<Rightarrow> (Clientset option \<times> error option) \<times> 's world" where
  "GetK8sClient api w =
     (case loadClientFromServiceAccount api w of
        ((k8sClient, err), w1) \<Rightarrow>
          if err \<noteq> None then ((None, err), w1)
          else if k8sClient = None then ((None, Some ErrK8SApiAccountNotSet), w1)
          else ((k8sClient, None), w1))"

text \<open>
  \<^verbatim>\<open>IsPodRunning\<close>: each loop returns false at the first container that decides it;
  \<open>None\<close> is a loop that ran to its end.
\<close>

fun IsPodRunning_init_loop :: "ContainerStatus list \<Rightarrow> bool option" where
  "IsPodRunning_init_loop [] = None"
| "IsPodRunning_init_loop (c # cs) =
     (if Running (cs_State c) \<noteq> None then Some False else IsPodRunning_init_loop cs)"

fun IsPodRunning_loop :: "ContainerStatus list \<Rightarrow> bool option" where
  "IsPodRunning_loop [] = None"
| "IsPodRunning_loop (c # cs) =
     (if Running (cs_State c) = None then Some False else IsPodRunning_loop cs)"

definition IsPodRunning :: "Pod \<Rightarrow> bool" where
  "IsPodRunning pod =
     (case IsPodRunning_init_loop (InitContainerStatuses pod) of
        Some b \<Rightarrow> b
      | None \<Rightarrow>
          (case IsPodRunning_loop (ContainerStatuses pod) of
             Some b \<Rightarrow> b
           | None \<Rightarrow> True))"

text \<open>
  \<^verbatim>\<open>GetReplicaSetPods\<close>: the pods of the replica set's namespace, each appended once
  for every owner reference of its that carries the replica set's name.
\<close>

fun GetReplicaSetPods_owner_loop ::
  "ReplicaSet \<Rightarrow> Pod \<Rightarrow> OwnerReference list \<Rightarrow> Pod slice \<Rightarrow> Pod slice" where
  "GetReplicaSetPods_owner_loop rSet pod [] result = result"
| "GetReplicaSetPods_owner_loop rSet pod (owner # owners) result =
     GetReplicaSetPods_owner_loop rSet pod owners
       (if owner_Name owner = rs_Name rSet then slice_append result pod else result)"

fun GetReplicaSetPods_loop :: "ReplicaSet \<Rightarrow> Pod list \<Rightarrow> Pod slice \<Rightarrow> Pod slice" where
  "GetReplicaSetPods_loop rSet [] result = result"
| "GetReplicaSetPods_loop rSet (pod # pods) result =
     GetReplicaSetPods_loop rSet pods
       (GetReplicaSetPods_owner_loop rSet pod (pod_OwnerReferences pod) result)"

definition GetReplicaSetPods ::
  "'s k8s_api \<Rightarrow> ReplicaSet \<Rightarrow> 's world \<Rightarrow> (Pod slice \<times> error option) \<times> 's world" where
  "GetReplicaSetPods api rSet w =
     (case GetK8sClient api w of
        ((client, Some err), w1) \<Rightarrow> ((None, Some err), w1)
      | ((client, None), w1) \<Rightarrow>
          (case api_call (Pods_List api (rs_Namespace rSet)) (Call_Pods_List (rs_Namespace rSet)) w1 of
             (Inl err, w2) \<Rightarrow> ((None, Some (ApiError err)), w2)
           | (Inr pods, w2) \<Rightarrow> ((GetReplicaSetPods_loop rSet pods None, None), w2)))"

text \<open>
  \<^verbatim>\<open>GetDeploymentPods\<close>: the first replica set of the deployment's namespace with an
  owner reference that carries the deployment's name decides the result.
\<close>

fun GetDeploymentPods_owner_loop :: "Deployment \<Rightarrow> OwnerReference list \<Rightarrow> bool" where
  "GetDeploymentPods_owner_loop deployment [] = False"
| "GetDeploymentPods_owner_loop deployment (owner # owners) =
     (if owner_Name owner = dep_Name deployment then True
      else GetDeploymentPods_owner_loop deployment owners)"

fun GetDeploymentPods_loop ::
  "'s k8s_api \<Rightarrow> Deployment \<Rightarrow> ReplicaSet list \<Rightarrow> 's world
     \<Rightarrow> (Pod slice \<times> error option) \<times> 's world" where
  "GetDeploymentPods_loop api deployment [] w = ((None, None), w)"
| "GetDeploymentPods_loop api deployment (rSet # rSets) w =
     (if GetDeploymentPods_owner_loop deployment (rs_OwnerReferences rSet)
      then GetReplicaSetPods api rSet w
      else GetDeploymentPods_loop api deployment rSets w)"

definition GetDeploymentPods ::
  "'s k8s_api \<Rightarrow> Deployment \<Rightarrow> 's world \<Rightarrow> (Pod slice \<times> error option) \<times> 's world" where
  "GetDeploymentPods api deployment w =
     (case GetK8sClient api w of
        ((client, Some err), w1) \<Rightarrow> ((None, Some err), w1)
      | ((client, None), w1) \<Rightarrow>
          (case api_call (ReplicaSets_List api (dep_Namespace deployment))
                  (Call_ReplicaSets_List (dep_Namespace deployment)) w1 of
             (Inl err, w2) \<Rightarrow> ((None, Some (ApiError err)), w2)
           | (Inr rSets, w2) \<Rightarrow> GetDeploymentPods_loop api deployment rSets w2))"

definition GetNodeByName ::
  "'s k8s_api \<Rightarrow> string \<Rightarrow> 's world \<Rightarrow> (Node option \<times> error option) \<times> 's world" where
  "GetNodeByName api name w =
     (case GetK8sClient api w of
        ((client, Some err), w1) \<Rightarrow> ((None, Some err), w1)
      | ((client, None), w1) \<Rightarrow>
          (case api_call (Nodes_Get api name) (Call_Nodes_Get name) w1 of
             (Inl err, w2) \<Rightarrow> ((None, Some (ApiError err)), w2)
           | (Inr node, w2) \<Rightarrow> ((Some node, None), w2)))"

text \<open>
  \<^verbatim>\<open>IsNodeReady\<close>: the loop over the conditions returns at the first condition that
  fails its \<^verbatim>\<open>switch\<close> case; a condition of any other type falls through the switch.
\<close>

fun IsNodeReady_loop :: "string \<Rightarrow> NodeCondition list \<Rightarrow> error option" where
  "IsNodeReady_loop name [] = None"
| "IsNodeReady_loop name (condition # conditions) =
     (if cond_Type condition = NodeReady then
        (if cond_Status condition \<noteq> ConditionTrue then
           Some (Errorf (Sprintf ''node: %v is not ready as condition: %v (%v) is %v. Reason: %v''
                 [V_string name, V_string (cond_Type condition), V_string (cond_Message condition),
                  V_string (cond_Status condition), V_string (cond_Reason condition)]))
         else IsNodeReady_loop name conditions)
      else if cond_Type condition = NodeOutOfDisk
            \<or> cond_Type condition = NodeMemoryPressure
            \<or> cond_Type condition = NodeDiskPressure
            \<or> cond_Type condition = NodeNetworkUnavailable
            \<or> cond_Type condition = NodeInodePressure then
        (if cond_Status condition \<noteq> ConditionFalse then
           Some (Errorf (Sprintf ''node: %v is not ready as condition: %v (%v) is %v. Reason: %v''
                 [V_string name, V_string (cond_Type condition), V_string (cond_Message condition),
                  V_string (cond_Status condition), V_string (cond_Reason condition)]))
         else IsNodeReady_loop name conditions)
      else IsNodeReady_loop name conditions)"

definition IsNodeReady :: "'s k8s_api \<Rightarrow> string \<Rightarrow> 's world \<Rightarrow> error option outcome \<times> 's world" where
  "IsNodeReady api name w =
     (case GetNodeByName api name w of
        ((node, Some err), w1) \<Rightarrow> (Return (Some err), w1)
      | ((None, None), w1) \<Rightarrow> (Panic, w1)
      | ((Some node, None), w1) \<Rightarrow> (Return (IsNodeReady_loop name (Conditions node)), w1))"

text \<open>
  \<^verbatim>\<open>regexp.MatchString(".+ not found", s)\<close>: the pattern is not anchored and \<^verbatim>\<open>.\<close> is
  any character but a newline, so it matches when the text \<^verbatim>\<open>" not found"\<close> occurs in
  \<open>s\<close> right after a character that is not a newline.
\<close>

fun MatchString_not_found :: "string \<Rightarrow> bool" where
  "MatchString_not_found [] = False"
| "MatchString_not_found (c # cs) =
     ((c \<noteq> CHR 0x0A \<and> take 10 cs = '' not found'') \<or> MatchString_not_found cs)"

text \<open>The loop of the readiness predicate: the first pod that is not running.\<close>

fun ValidateDeployement_loop :: "Pod list \<Rightarrow> Pod option" where
  "ValidateDeployement_loop [] = None"
| "ValidateDeployement_loop (pod # pods) =
     (if \<not> IsPodRunning pod then Some pod else ValidateDeployement_loop pods)"

text \<open>The function \<^verbatim>\<open>t\<close> that \<^verbatim>\<open>ValidateDeployement\<close> hands to the retry.\<close>

definition ValidateDeployement_t ::
  "'s k8s_api \<Rightarrow> Deployment \<Rightarrow> 's world \<Rightarrow> error option outcome \<times> 's world" where
  "ValidateDeployement_t api deployment w =
     (case GetK8sClient api w of
        ((client, Some err), w1) \<Rightarrow> (Return (Some err), w1)
      | ((client, None), w1) \<Rightarrow>
          (case api_call (Deployments_Get api (dep_Namespace deployment) (dep_Name deployment))
                  (Call_Deployments_Get (dep_Namespace deployment) (dep_Name deployment)) w1 of
             (Inl err, w2) \<Rightarrow> (Return (Some (ApiError err)), w2)
           | (Inr dep, w2) \<Rightarrow>
               (case Spec_Replicas dep of
                  None \<Rightarrow> (Panic, w2)
                | Some replicas \<Rightarrow>
                    if replicas \<noteq> AvailableReplicas dep then
                      (Return (Some (ErrAppNotReady (dep_Name dep)
                         (Sprintf ''Expected replicas: %v Available replicas: %v''
                            [V_int32 replicas, V_int32 (AvailableReplicas dep)]))), w2)
                    else if replicas \<noteq> ReadyReplicas dep then
                      (Return (Some (ErrAppNotReady (dep_Name dep)
                         (Sprintf ''Expected replicas: %v Ready replicas: %v''
                            [V_int32 replicas, V_int32 (ReadyReplicas dep)]))), w2)
                    else
                      (case GetDeploymentPods api deployment w2 of
                         ((pods, err), w3) \<Rightarrow>
                           if err \<noteq> None \<or> pods = None then
                             (Return (Some (ErrAppNotReady (dep_Name dep)
                                (Sprintf ''Failed to get pods for deployment. Err: %v'' [V_error err]))), w3)
                           else
                             (case ValidateDeployement_loop (slice_elems pods) of
                                Some pod \<Rightarrow>
                                  (Return (Some (ErrAppNotReady (dep_Name dep)
                                     (Sprintf ''pod: %v is not yet ready'' [V_string (pod_Name pod)]))), w3)
                              | None \<Rightarrow> (Return None, w3))))))"

text \<open>
  \<^verbatim>\<open>task.DoRetryWithTimeout\<close> belongs to a package that is not part of these sources;
  the functions that call it take it as the parameter \<open>DoRetryWithTimeout\<close>.
\<close>

type_synonym 's retry =
  "('s world \<Rightarrow> error option outcome \<times> 's world) \<Rightarrow> int \<Rightarrow> int
     \<Rightarrow> 's world \<Rightarrow> error option outcome \<times> 's world"

definition ValidateDeployement ::
  "'s retry \<Rightarrow> 's k8s_api \<Rightarrow> Deployment \<Rightarrow> 's world \<Rightarrow> error option outcome \<times> 's world" where
  "ValidateDeployement DoRetryWithTimeout api deployment w =
     DoRetryWithTimeout (ValidateDeployement_t api deployment) (10 * Minute) (10 * Second) w"

text \<open>The function \<^verbatim>\<open>t\<close> of \<^verbatim>\<open>ValidateTerminatedDeployment\<close>.\<close>

definition ValidateTerminatedDeployment_t ::
  "'s k8s_api \<Rightarrow> Deployment \<Rightarrow> 's world \<Rightarrow> error option outcome \<times> 's world" where
  "ValidateTerminatedDeployment_t api deployment w =
     (case GetK8sClient api w of
        ((client, Some err), w1) \<Rightarrow> (Return (Some err), w1)
      | ((client, None), w1) \<Rightarrow>
          (case api_call (Deployments_Get api (dep_Namespace deployment) (dep_Name deployment))
                  (Call_Deployments_Get (dep_Namespace deployment) (dep_Name deployment)) w1 of
             (Inl err, w2) \<Rightarrow>
               if MatchString_not_found err then (Return None, w2)
               else (Return (Some (ApiError err)), w2)
           | (Inr dep, w2) \<Rightarrow>
               (case GetDeploymentPods api deployment w2 of
                  ((pods, err), w3) \<Rightarrow>
                    if err \<noteq> None then
                      (Return (Some (ErrAppNotTerminated (dep_Name dep)
                         (Sprintf ''Failed to get pods for deployment. Err: %v'' [V_error err]))), w3)
                    else if pods \<noteq> None \<and> slice_len pods > 0 then
                      (Return (Some (ErrAppNotTerminated (dep_Name dep)
                         (Sprintf ''pods: %#v is still present'' [V_pods pods]))), w3)
                    else (Return None, w3))))"

definition ValidateTerminatedDeployment ::
  "'s retry \<Rightarrow> 's k8s_api \<Rightarrow> Deployment \<Rightarrow> 's world \<Rightarrow> error option outcome \<times> 's world" where
  "ValidateTerminatedDeployment DoRetryWithTimeout api deployment w =
     DoRetryWithTimeout (ValidateTerminatedDeployment_t api deployment) (10 * Minute) (10 * Second) w"

definition ValidateStorageClass ::
  "'s k8s_api \<Rightarrow> StorageClass \<Rightarrow> 's world \<Rightarrow> error option outcome \<times> 's world" where
  "ValidateStorageClass api sc w =
     (case GetK8sClient api w of
        ((client, Some err), w1) \<Rightarrow> (Return (Some err), w1)
      | ((client, None), w1) \<Rightarrow>
          (case api_call (StorageClasses_Get api (sc_Name sc)) (Call_StorageClasses_Get (sc_Name sc)) w1 of
             (Inl err, w2) \<Rightarrow> (Return (Some (ApiError err)), w2)
           | (Inr result, w2) \<Rightarrow> (Return None, w2)))"

text \<open>The function \<^verbatim>\<open>t\<close> of \<^verbatim>\<open>ValidatePersistentVolumeClaim\<close>.\<close>

definition ValidatePersistentVolumeClaim_t ::
  "'s k8s_api \<Rightarrow> PersistentVolumeClaim \<Rightarrow> 's world \<Rightarrow> error option outcome \<times> 's world" where
  "ValidatePersistentVolumeClaim_t api pvc w =
     (case GetK8sClient api w of
        ((client, Some err), w1) \<Rightarrow> (Return (Some err), w1)
      | ((client, None), w1) \<Rightarrow>
          (case api_call (PersistentVolumeClaims_Get api (pvc_Namespace pvc) (pvc_Name pvc))
                  (Call_PersistentVolumeClaims_Get (pvc_Namespace pvc) (pvc_Name pvc)) w1 of
             (Inl err, w2) \<Rightarrow> (Return (Some (ApiError err)), w2)
           | (Inr result, w2) \<Rightarrow>
               if pvc_Phase result = ClaimBound then (Return None, w2)
               else
                 (Return (Some (ErrPVCNotReady (pvc_Name result)
                    (Sprintf ''PVC expected status: %v PVC actual status: %v''
                       [V_string ClaimBound, V_string (pvc_Phase result)]))), w2)))"

definition ValidatePersistentVolumeClaim ::
  "'s retry \<Rightarrow> 's k8s_api \<Rightarrow> PersistentVolumeClaim \<Rightarrow> 's world \<Rightarrow> error option outcome \<times> 's world" where
  "ValidatePersistentVolumeClaim DoRetryWithTimeout api pvc w =
     DoRetryWithTimeout (ValidatePersistentVolumeClaim_t api pvc) (5 * Minute) (10 * Second) w"

text \<open>
  Go maps: reading a nil map finds nothing, \<^verbatim>\<open>delete\<close> on a nil map does nothing,
  assigning to an entry of a nil map panics.
\<close>

definition map_index :: "(string \<rightharpoonup> string) option \<Rightarrow> string \<Rightarrow> string \<times> bool" where
  "map_index m k =
     (case m of
        None \<Rightarrow> ([], False)
      | Some f \<Rightarrow> (case f k of None \<Rightarrow> ([], False) | Some v \<Rightarrow> (v, True)))"

definition map_assign ::
  "(string \<rightharpoonup> string) option \<Rightarrow> string \<Rightarrow> string \<Rightarrow> (string \<rightharpoonup> string) option outcome" where
  "map_assign m k v = (case m of None \<Rightarrow> Panic | Some f \<Rightarrow> Return (Some (f(k \<mapsto> v))))"

definition map_delete :: "(string \<rightharpoonup> string) option \<Rightarrow> string \<Rightarrow> (string \<rightharpoonup> string) option" where
  "map_delete m k = (case m of None \<Rightarrow> None | Some f \<Rightarrow> Some (f(k := None)))"

text \<open>
  \<^verbatim>\<open>AddLabelOnNode\<close>. The loop body declares its own \<^verbatim>\<open>node\<close> and \<^verbatim>\<open>err\<close> with
  \<^verbatim>\<open>:=\<close>; the update assigns to that inner \<^verbatim>\<open>err\<close>. The \<^verbatim>\<open>err\<close> returned after
  the loop is the one of the function's scope, which the loop receives as \<open>err\<close> and
  never changes.
\<close>

function AddLabelOnNode_loop ::
  "'s k8s_api \<Rightarrow> string \<Rightarrow> string \<Rightarrow> string \<Rightarrow> error option \<Rightarrow> nat \<Rightarrow> 's world
     \<Rightarrow> error option outcome \<times> 's world" where
  "AddLabelOnNode_loop api name key val err retryCnt w =
     (if retryCnt < k8sLabelUpdateMaxRetries then
        (case api_call (Nodes_Get api name) (Call_Nodes_Get name) w of
           (Inl err1, w1) \<Rightarrow> (Return (Some (ApiError err1)), w1)
         | (Inr node, w1) \<Rightarrow>
             if snd (map_index (Labels node) key) \<and> fst (map_index (Labels node) key) = val then
               (Return None, w1)
             else
               (case map_assign (Labels node) key val of
                  Panic \<Rightarrow> (Panic, w1)
                | Return labels \<Rightarrow>
                    (case api_call (Nodes_Update api (node\<lparr>Labels := labels\<rparr>))
                            (Call_Nodes_Update (node\<lparr>Labels := labels\<rparr>)) w1 of
                       (Inr updated, w2) \<Rightarrow> (Return None, w2)
                     | (Inl err1, w2) \<Rightarrow>
                         AddLabelOnNode_loop api name key val err (retryCnt + 1) w2)))
      else (Return err, w))"
  by pat_completeness auto
termination
  by (relation "measure (\<lambda>(api, name, key, val, err, retryCnt, w). k8sLabelUpdateMaxRetries - retryCnt)") auto

declare AddLabelOnNode_loop.simps [simp del]

definition AddLabelOnNode ::
  "'s k8s_api \<Rightarrow> string \<Rightarrow> string \<Rightarrow> string \<Rightarrow> 's world \<Rightarrow> error option outcome \<times> 's world" where
  "AddLabelOnNode api name key val w =
     (case GetK8sClient api w of
        ((client, Some err), w1) \<Rightarrow> (Return (Some err), w1)
      | ((client, None), w1) \<Rightarrow> AddLabelOnNode_loop api name key val None 0 w1)"

text \<open>\<^verbatim>\<open>RemoveLabelOnNode\<close>, with the same scoping of \<^verbatim>\<open>err\<close>.\<close>

function RemoveLabelOnNode_loop ::
  "'s k8s_api \<Rightarrow> string \<Rightarrow> string \<Rightarrow> error option \<Rightarrow> nat \<Rightarrow> 's world
     \<Rightarrow> error option outcome \<times> 's world" where
  "RemoveLabelOnNode_loop api name key err retryCnt w =
     (if retryCnt < k8sLabelUpdateMaxRetries then
        (case api_call (Nodes_Get api name) (Call_Nodes_Get name) w of
           (Inl err1, w1) \<Rightarrow> (Return (Some (ApiError err1)), w1)
         | (Inr node, w1) \<Rightarrow>
             if snd (map_index (Labels node) key) then
               (case api_call (Nodes_Update api (node\<lparr>Labels := map_delete (Labels node) key\<rparr>))
                       (Call_Nodes_Update (node\<lparr>Labels := map_delete (Labels node) key\<rparr>)) w1 of
                  (Inr updated, w2) \<Rightarrow> (Return None, w2)
                | (Inl err1, w2) \<Rightarrow> RemoveLabelOnNode_loop api name key err (retryCnt + 1) w2)
             else RemoveLabelOnNode_loop api name key err (retryCnt + 1) w1)
      else (Return err, w))"
  by pat_completeness auto
termination
  by (relation "measure (\<lambda>(api, name, key, err, retryCnt, w). k8sLabelUpdateMaxRetries - retryCnt)") auto

declare RemoveLabelOnNode_loop.simps [simp del]

definition RemoveLabelOnNode ::
  "'s k8s_api \<Rightarrow> string \<Rightarrow> string \<Rightarrow> 's world \<Rightarrow> error option outcome \<times> 's world" where
  "RemoveLabelOnNode api name key w =
     (case GetK8sClient api w of
        ((client, Some err), w1) \<Rightarrow> (Return (Some err), w1)
      | ((client, None), w1) \<Rightarrow> RemoveLabelOnNode_loop api name key None 0 w1)"

section \<open>Specification predicates\<close>

text \<open>
  A pod is fully running when every regular container is in the Running state and no
  init container is still Running.
\<close>

definition spec_fully_running :: "Pod \<Rightarrow> bool" where
  "spec_fully_running pod \<longleftrightarrow>
     (\<forall>c\<in>set (ContainerStatuses pod). Running (cs_State c) \<noteq> None)
     \<and> \<not> (\<exists>c\<in>set (InitContainerStatuses pod). Running (cs_State c) \<noteq> None)"

text \<open>
  A node condition is violated when it is the ready condition and does not report true,
  or one of the five negative conditions and does not report false.
\<close>

definition spec_negative_conditions :: "string list" where
  "spec_negative_conditions =
     [NodeOutOfDisk, NodeMemoryPressure, NodeDiskPressure, NodeNetworkUnavailable, NodeInodePressure]"

definition spec_condition_violated :: "NodeCondition \<Rightarrow> bool" where
  "spec_condition_violated c \<longleftrightarrow>
     (cond_Type c = NodeReady \<and> cond_Status c \<noteq> ConditionTrue)
     \<or> (cond_Type c \<in> set spec_negative_conditions \<and> cond_Status c \<noteq> ConditionFalse)"

text \<open>
  The calls of one attempt of a label update: a read of the node alone, or a read followed
  by the write of the node that was just read, with the one label set or removed.
\<close>

definition spec_AddLabel_attempt :: "string \<Rightarrow> string \<Rightarrow> string \<Rightarrow> call list \<Rightarrow> bool" where
  "spec_AddLabel_attempt name key val a \<longleftrightarrow>
     (\<exists>r. a = [Call_Nodes_Get name r])
     \<or> (\<exists>node labels r. Labels node = Some labels
           \<and> a = [Call_Nodes_Get name (Inr node),
                  Call_Nodes_Update (node\<lparr>Labels := Some (labels(key \<mapsto> val))\<rparr>) r])"

definition spec_RemoveLabel_attempt :: "string \<Rightarrow> string \<Rightarrow> call list \<Rightarrow> bool" where
  "spec_RemoveLabel_attempt name key a \<longleftrightarrow>
     (\<exists>r. a = [Call_Nodes_Get name r])
     \<or> (\<exists>node labels r. Labels node = Some labels \<and> labels key \<noteq> None
           \<and> a = [Call_Nodes_Get name (Inr node),
                  Call_Nodes_Update (node\<lparr>Labels := Some (labels(key := None))\<rparr>) r])"

definition spec_key_absent :: "Node \<Rightarrow> string \<Rightarrow> bool" where
  "spec_key_absent node key \<longleftrightarrow> (\<forall>labels. Labels node = Some labels \<longrightarrow> labels key = None)"

fun failed_update :: "call \<Rightarrow> bool" where
  "failed_update (Call_Nodes_Update node (Inl err)) = True"
| "failed_update c = False"

fun is_update :: "call \<Rightarrow> bool" where
  "is_update (Call_Nodes_Update node r) = True"
| "is_update c = False"

text \<open>
  The attempts of a whole run. An attempt is followed by another one when its write is
  refused, or, for the removal, when its read finds the key absent; the run ends with the
  first attempt of any other kind, or after the attempt that uses up the count \<open>k\<close>.
  With each kind of last attempt goes the result of the function.
\<close>

definition spec_AddLabel_retry :: "string \<Rightarrow> string \<Rightarrow> string \<Rightarrow> call list \<Rightarrow> bool" where
  "spec_AddLabel_retry name key val a \<longleftrightarrow>
     (\<exists>node labels msg. Labels node = Some labels \<and> labels key \<noteq> Some val
        \<and> a = [Call_Nodes_Get name (Inr node),
               Call_Nodes_Update (node\<lparr>Labels := Some (labels(key \<mapsto> val))\<rparr>) (Inl msg)])"

definition spec_AddLabel_final ::
  "string \<Rightarrow> string \<Rightarrow> string \<Rightarrow> call list \<Rightarrow> error option outcome \<Rightarrow> bool" where
  "spec_AddLabel_final name key val a res \<longleftrightarrow>
     (\<exists>msg. a = [Call_Nodes_Get name (Inl msg)] \<and> res = Return (Some (ApiError msg)))
     \<or> (\<exists>node labels. Labels node = Some labels \<and> labels key = Some val
           \<and> a = [Call_Nodes_Get name (Inr node)] \<and> res = Return None)
     \<or> (\<exists>node. Labels node = None \<and> a = [Call_Nodes_Get name (Inr node)] \<and> res = Panic)
     \<or> (\<exists>node labels updated. Labels node = Some labels \<and> labels key \<noteq> Some val
           \<and> a = [Call_Nodes_Get name (Inr node),
                  Call_Nodes_Update (node\<lparr>Labels := Some (labels(key \<mapsto> val))\<rparr>) (Inr updated)]
           \<and> res = Return None)"

fun spec_AddLabel_run ::
  "string \<Rightarrow> string \<Rightarrow> string \<Rightarrow> nat \<Rightarrow> call list list \<Rightarrow> error option outcome \<Rightarrow> bool" where
  "spec_AddLabel_run name key val k [] res \<longleftrightarrow> k = 0 \<and> res = Return None"
| "spec_AddLabel_run name key val k (a # rest) res \<longleftrightarrow>
     0 < k
     \<and> ((spec_AddLabel_final name key val a res \<and> rest = [])
        \<or> (spec_AddLabel_retry name key val a \<and> spec_AddLabel_run name key val (k - 1) rest res))"

definition spec_RemoveLabel_retry :: "string \<Rightarrow> string \<Rightarrow> call list \<Rightarrow> bool" where
  "spec_RemoveLabel_retry name key a \<longleftrightarrow>
     (\<exists>node. spec_key_absent node key \<and> a = [Call_Nodes_Get name (Inr node)])
     \<or> (\<exists>node labels msg. Labels node = Some labels \<and> labels key \<noteq> None
           \<and> a = [Call_Nodes_Get name (Inr node),
                  Call_Nodes_Update (node\<lparr>Labels := Some (labels(key := None))\<rparr>) (Inl msg)])"

definition spec_RemoveLabel_final ::
  "string \<Rightarrow> string \<Rightarrow> call list \<Rightarrow> error option outcome \<Rightarrow> bool" where
  "spec_RemoveLabel_final name key a res \<longleftrightarrow>
     (\<exists>msg. a = [Call_Nodes_Get name (Inl msg)] \<and> res = Return (Some (ApiError msg)))
     \<or> (\<exists>node labels updated. Labels node = Some labels \<and> labels key \<noteq> None
           \<and> a = [Call_Nodes_Get name (Inr node),
                  Call_Nodes_Update (node\<lparr>Labels := Some (labels(key := None))\<rparr>) (Inr updated)]
           \<and> res = Return None)"

fun spec_RemoveLabel_run ::
  "string \<Rightarrow> string \<Rightarrow> nat \<Rightarrow> call list list \<Rightarrow> error option outcome \<Rightarrow> bool" where
  "spec_RemoveLabel_run name key k [] res \<longleftrightarrow> k = 0 \<and> res = Return None"
| "spec_RemoveLabel_run name key k (a # rest) res \<longleftrightarrow>
     0 < k
     \<and> ((spec_RemoveLabel_final name key a res \<and> rest = [])
        \<or> (spec_RemoveLabel_retry name key a \<and> spec_RemoveLabel_run name key (k - 1) rest res))"

text \<open>
  A list of calls is replayed from a state when every call, made in the state that the
  call before it left, gets the response that the list records for it; the replay gives
  the state after the last call.
\<close>

fun replay :: "'s k8s_api \<Rightarrow> call list \<Rightarrow> 's \<Rightarrow> 's option" where
  "replay api [] s = Some s"
| "replay api (Call_InClusterConfig r # cs) s =
     (if fst (rest_InClusterConfig api s) = r
      then replay api cs (snd (rest_InClusterConfig api s)) else None)"
| "replay api (Call_NewForConfig r # cs) s =
     (if fst (kubernetes_NewForConfig api rest_Config s) = r
      then replay api cs (snd (kubernetes_NewForConfig api rest_Config s)) else None)"
| "replay api (Call_Nodes_Get name r # cs) s =
     (if fst (Nodes_Get api name s) = r then replay api cs (snd (Nodes_Get api name s)) else None)"
| "replay api (Call_Nodes_Update node r # cs) s =
     (if fst (Nodes_Update api node s) = r then replay api cs (snd (Nodes_Update api node s)) else None)"
| "replay api (Call_Deployments_Get namespace name r # cs) s =
     (if fst (Deployments_Get api namespace name s) = r
      then replay api cs (snd (Deployments_Get api namespace name s)) else None)"
| "replay api (Call_ReplicaSets_List namespace r # cs) s =
     (if fst (ReplicaSets_List api namespace s) = r
      then replay api cs (snd (ReplicaSets_List api namespace s)) else None)"
| "replay api (Call_Pods_List namespace r # cs) s =
     (if fst (Pods_List api namespace s) = r
      then replay api cs (snd (Pods_List api namespace s)) else None)"
| "replay api (Call_PersistentVolumeClaims_Get namespace name r # cs) s =
     (if fst (PersistentVolumeClaims_Get api namespace name s) = r
      then replay api cs (snd (PersistentVolumeClaims_Get api namespace name s)) else None)"
| "replay api (Call_StorageClasses_Get name r # cs) s =
     (if fst (StorageClasses_Get api name s) = r
      then replay api cs (snd (StorageClasses_Get api name s)) else None)"

text \<open>
  What is shown of a run of either loop that starts with \<open>k\<close> attempts left: the
  attempts it makes, where a returned error comes from, and when the error \<open>err\<close> of the
  enclosing function is returned.
\<close>

definition AddLabel_exec ::
  "string \<Rightarrow> string \<Rightarrow> string \<Rightarrow> error option \<Rightarrow> nat \<Rightarrow> error option outcome \<Rightarrow> call list list \<Rightarrow> bool" where
  "AddLabel_exec name key val err k res attempts \<longleftrightarrow>
     length attempts \<le> k
     \<and> (\<forall>a\<in>set attempts. spec_AddLabel_attempt name key val a)
     \<and> (\<forall>e. res = Return (Some e) \<longrightarrow>
           err = Some e
           \<or> (\<exists>text. e = ApiError text \<and> concat attempts \<noteq> []
                 \<and> last (concat attempts) = Call_Nodes_Get name (Inl text)))
     \<and> (length (filter failed_update (concat attempts)) = k \<longrightarrow> res = Return err)"

definition RemoveLabel_exec ::
  "string \<Rightarrow> string \<Rightarrow> error option \<Rightarrow> nat \<Rightarrow> error option outcome \<Rightarrow> call list list \<Rightarrow> bool" where
  "RemoveLabel_exec name key err k res attempts \<longleftrightarrow>
     length attempts \<le> k
     \<and> (\<forall>a\<in>set attempts. spec_RemoveLabel_attempt name key a)
     \<and> (\<forall>e. res = Return (Some e) \<longrightarrow>
           err = Some e
           \<or> (\<exists>text. e = ApiError text \<and> concat attempts \<noteq> []
                 \<and> last (concat attempts) = Call_Nodes_Get name (Inl text)))
     \<and> (length (filter failed_update (concat attempts)) = k \<longrightarrow> res = Return err)
     \<and> ((\<forall>r. Call_Nodes_Get name r \<in> set (concat attempts) \<longrightarrow>
              (\<exists>node. r = Inr node \<and> spec_key_absent node key))
         \<longrightarrow> res = Return err \<and> filter is_update (concat attempts) = [] \<and> length attempts = k)
     \<and> res \<noteq> Panic"

section \<open>A scripted API for concrete runs\<close>

text \<open>
  A script answers every call from the number of calls made before it; the state of the
  scripted API is that number.
\<close>

record script =
  on_InClusterConfig :: "nat \<Rightarrow> string + rest_Config"
  on_NewForConfig :: "nat \<Rightarrow> string + Clientset option"
  on_Nodes_Get :: "nat \<Rightarrow> string \<Rightarrow> string + Node"
  on_Nodes_Update :: "nat \<Rightarrow> Node \<Rightarrow> string + Node"
  on_Deployments_Get :: "nat \<Rightarrow> string \<Rightarrow> string \<Rightarrow> string + Deployment"
  on_ReplicaSets_List :: "nat \<Rightarrow> string \<Rightarrow> string + ReplicaSet list"
  on_Pods_List :: "nat \<Rightarrow> string \<Rightarrow> string + Pod list"
  on_PersistentVolumeClaims_Get :: "nat \<Rightarrow> string \<Rightarrow> string \<Rightarrow> string + PersistentVolumeClaim"
  on_StorageClasses_Get :: "nat \<Rightarrow> string \<Rightarrow> string + StorageClass"

definition scripted_api :: "script \<Rightarrow> nat k8s_api" where
  "scripted_api sc =
     \<lparr>rest_InClusterConfig = (\<lambda>t. (on_InClusterConfig sc t, Suc t)),
      kubernetes_NewForConfig = (\<lambda>config t. (on_NewForConfig sc t, Suc t)),
      Nodes_Get = (\<lambda>name t. (on_Nodes_Get sc t name, Suc t)),
      Nodes_Update = (\<lambda>node t. (on_Nodes_Update sc t node, Suc t)),
      Deployments_Get = (\<lambda>namespace name t. (on_Deployments_Get sc t namespace name, Suc t)),
      ReplicaSets_List = (\<lambda>namespace t. (on_ReplicaSets_List sc t namespace, Suc t)),
      Pods_List = (\<lambda>namespace t. (on_Pods_List sc t namespace, Suc t)),
      PersistentVolumeClaims_Get = (\<lambda>namespace name t. (on_PersistentVolumeClaims_Get sc t namespace name, Suc t)),
      StorageClasses_Get = (\<lambda>name t. (on_StorageClasses_Get sc t name, Suc t))\<rparr>"

text \<open>
  The starting script: the client is obtained, every request fails.
\<close>

definition unreachable :: script where
  "unreachable =
     \<lparr>on_InClusterConfig = (\<lambda>t. Inr rest_Config),
      on_NewForConfig = (\<lambda>t. Inr (Some Clientset)),
      on_Nodes_Get = (\<lambda>t name. Inl ''connection refused''),
      on_Nodes_Update = (\<lambda>t node. Inl ''connection refused''),
      on_Deployments_Get = (\<lambda>t namespace name. Inl ''connection refused''),
      on_ReplicaSets_List = (\<lambda>t namespace. Inl ''connection refused''),
      on_Pods_List = (\<lambda>t namespace. Inl ''connection refused''),
      on_PersistentVolumeClaims_Get = (\<lambda>t namespace name. Inl ''connection refused''),
      on_StorageClasses_Get = (\<lambda>t name. Inl ''connection refused'')\<rparr>"

text \<open>
  A deployment scaled to zero: its replica set exists, no pod does.
\<close>

definition web :: Deployment where
  "web = \<lparr>dep_Name = ''web'', dep_Namespace = ''default'', Spec_Replicas = Some 0,
           AvailableReplicas = 0, ReadyReplicas = 0\<rparr>"

definition web_rs :: ReplicaSet where
  "web_rs = \<lparr>rs_Name = ''web-5d4f'', rs_Namespace = ''default'',
              rs_OwnerReferences = [\<lparr>owner_Name = ''web''\<rparr>]\<rparr>"

definition scaled_to_zero :: script where
  "scaled_to_zero = unreachable
     \<lparr>on_Deployments_Get := (\<lambda>t namespace name. Inr web),
      on_ReplicaSets_List := (\<lambda>t namespace. Inr [web_rs]),
      on_Pods_List := (\<lambda>t namespace. Inr [])\<rparr>"

text \<open>
  A deployment of one replica whose pod runs, and the same deployment while no container
  status of the pod has been reported yet.
\<close>

definition db :: Deployment where
  "db = \<lparr>dep_Name = ''db'', dep_Namespace = ''default'', Spec_Replicas = Some 1,
          AvailableReplicas = 1, ReadyReplicas = 1\<rparr>"

definition db_rs :: ReplicaSet where
  "db_rs = \<lparr>rs_Name = ''db-7c9'', rs_Namespace = ''default'',
             rs_OwnerReferences = [\<lparr>owner_Name = ''db''\<rparr>]\<rparr>"

definition db_pod :: Pod where
  "db_pod = \<lparr>pod_Name = ''db-7c9-x2'', pod_Namespace = ''default'',
              pod_OwnerReferences = [\<lparr>owner_Name = ''db-7c9''\<rparr>],
              InitContainerStatuses =
                [\<lparr>cs_Name = ''init'',
                  cs_State = \<lparr>Waiting = None, Running = None, Terminated = Some ''Completed''\<rparr>\<rparr>],
              ContainerStatuses =
                [\<lparr>cs_Name = ''postgres'',
                  cs_State = \<lparr>Waiting = None, Running = Some ''2017-08-01T10:00:00Z'',
                              Terminated = None\<rparr>\<rparr>]\<rparr>"

definition db_pod_unreported :: Pod where
  "db_pod_unreported = db_pod\<lparr>InitContainerStatuses := [], ContainerStatuses := []\<rparr>"

definition db_running :: script where
  "db_running = unreachable
     \<lparr>on_Deployments_Get := (\<lambda>t namespace name. Inr db),
      on_ReplicaSets_List := (\<lambda>t namespace. Inr [web_rs, db_rs]),
      on_Pods_List := (\<lambda>t namespace. Inr [db_pod])\<rparr>"

definition db_unreported :: script where
  "db_unreported = db_running\<lparr>on_Pods_List := (\<lambda>t namespace. Inr [db_pod_unreported])\<rparr>"

text \<open>A cluster from which the deployment, the claim, the class and the node are gone.\<close>

definition all_deleted :: script where
  "all_deleted = unreachable
     \<lparr>on_Nodes_Get := (\<lambda>t name. Inl ''nodes node1 not found''),
      on_Deployments_Get := (\<lambda>t namespace name. Inl ''deployments.extensions web not found''),
      on_PersistentVolumeClaims_Get := (\<lambda>t namespace name. Inl ''persistentvolumeclaims data not found''),
      on_StorageClasses_Get := (\<lambda>t name. Inl ''storageclasses.storage.k8s.io fast not found'')\<rparr>"

text \<open>The deployment of one replica once its pods are gone.\<close>

definition db_drained :: script where
  "db_drained = db_running\<lparr>on_Pods_List := (\<lambda>t namespace. Inr [])\<rparr>"

text \<open>A claim that reports the phase Lost.\<close>

definition data :: PersistentVolumeClaim where
  "data = \<lparr>pvc_Name = ''data'', pvc_Namespace = ''default'', pvc_Phase = ''Lost''\<rparr>"

definition fast :: StorageClass where
  "fast = \<lparr>sc_Name = ''fast''\<rparr>"

definition claim_lost :: script where
  "claim_lost = unreachable\<lparr>on_PersistentVolumeClaims_Get := (\<lambda>t namespace name. Inr data)\<rparr>"

text \<open>
  A node whose only condition is a ready condition that reports false, and a node that is
  ready and reports no pressure. Every write to either node is refused.
\<close>

definition not_ready :: NodeCondition where
  "not_ready = \<lparr>cond_Type = ''Ready'', cond_Status = ''False'',
                 cond_Message = ''kubelet stopped posting node status'',
                 cond_Reason = ''NodeStatusUnknown''\<rparr>"

definition node1 :: Node where
  "node1 = \<lparr>node_Name = ''node1'', Labels = Some [''zone'' \<mapsto> ''a''],
             Conditions = [not_ready]\<rparr>"

definition node2 :: Node where
  "node2 = \<lparr>node_Name = ''node2'', Labels = Some [''zone'' \<mapsto> ''b''],
             Conditions =
               [\<lparr>cond_Type = ''MemoryPressure'', cond_Status = ''False'',
                 cond_Message = ''kubelet has sufficient memory available'',
                 cond_Reason = ''KubeletHasSufficientMemory''\<rparr>,
                \<lparr>cond_Type = ''DiskPressure'', cond_Status = ''False'',
                 cond_Message = ''kubelet has no disk pressure'',
                 cond_Reason = ''KubeletHasNoDiskPressure''\<rparr>,
                \<lparr>cond_Type = ''Ready'', cond_Status = ''True'',
                 cond_Message = ''kubelet is posting ready status'',
                 cond_Reason = ''KubeletReady''\<rparr>]\<rparr>"

definition conflict :: script where
  "conflict = unreachable
     \<lparr>on_Nodes_Get := (\<lambda>t name. if name = ''node2'' then Inr node2 else Inr node1),
      on_Nodes_Update := (\<lambda>t node. Inl ''the object has been modified'')\<rparr>"

text \<open>
  A node that another client relabels while its label is being updated: the first two
  writes are refused, the third read returns the relabelled node and the write that
  follows it is accepted. The attempts that setting the label \<^verbatim>\<open>gpu\<close> and removing the
  label \<^verbatim>\<open>zone\<close> then make.
\<close>

definition node1_relabelled :: Node where
  "node1_relabelled = node1\<lparr>Labels := Some [''zone'' \<mapsto> ''a'', ''team'' \<mapsto> ''storage'']\<rparr>"

definition contended :: script where
  "contended = unreachable
     \<lparr>on_Nodes_Get := (\<lambda>t name. if t < 6 then Inr node1 else Inr node1_relabelled),
      on_Nodes_Update := (\<lambda>t node. if t < 6 then Inl ''the object has been modified'' else Inr node)\<rparr>"

definition contended_add :: "call list list" where
  "contended_add =
     [[Call_Nodes_Get ''node1'' (Inr node1),
       Call_Nodes_Update (node1\<lparr>Labels := Some [''zone'' \<mapsto> ''a'', ''gpu'' \<mapsto> ''true'']\<rparr>)
         (Inl ''the object has been modified'')],
      [Call_Nodes_Get ''node1'' (Inr node1),
       Call_Nodes_Update (node1\<lparr>Labels := Some [''zone'' \<mapsto> ''a'', ''gpu'' \<mapsto> ''true'']\<rparr>)
         (Inl ''the object has been modified'')],
      [Call_Nodes_Get ''node1'' (Inr node1_relabelled),
       Call_Nodes_Update
         (node1_relabelled\<lparr>Labels := Some [''zone'' \<mapsto> ''a'', ''team'' \<mapsto> ''storage'', ''gpu'' \<mapsto> ''true'']\<rparr>)
         (Inr (node1_relabelled\<lparr>Labels := Some [''zone'' \<mapsto> ''a'', ''team'' \<mapsto> ''storage'', ''gpu'' \<mapsto> ''true'']\<rparr>))]]"

definition contended_remove :: "call list list" where
  "contended_remove =
     [[Call_Nodes_Get ''node1'' (Inr node1),
       Call_Nodes_Update (node1\<lparr>Labels := Some ([''zone'' \<mapsto> ''a''](''zone'' := None))\<rparr>)
         (Inl ''the object has been modified'')],
      [Call_Nodes_Get ''node1'' (Inr node1),
       Call_Nodes_Update (node1\<lparr>Labels := Some ([''zone'' \<mapsto> ''a''](''zone'' := None))\<rparr>)
         (Inl ''the object has been modified'')],
      [Call_Nodes_Get ''node1'' (Inr node1_relabelled),
       Call_Nodes_Update
         (node1_relabelled\<lparr>Labels := Some ([''zone'' \<mapsto> ''a'', ''team'' \<mapsto> ''storage''](''zone'' := None))\<rparr>)
         (Inr (node1_relabelled\<lparr>Labels := Some ([''zone'' \<mapsto> ''a'', ''team'' \<mapsto> ''storage''](''zone'' := None))\<rparr>))]]"

text \<open>A namespace whose only replica set belongs to another deployment.\<close>

definition other_rs :: ReplicaSet where
  "other_rs = \<lparr>rs_Name = ''cache-66b'', rs_Namespace = ''default'',
                rs_OwnerReferences = [\<lparr>owner_Name = ''cache''\<rparr>]\<rparr>"

definition no_owned_rs :: script where
  "no_owned_rs = db_running\<lparr>on_ReplicaSets_List := (\<lambda>t namespace. Inr [other_rs])\<rparr>"

section \<open>Properties\<close>

subsection \<open>Properties of the registry\<close>

lemma Register_registry:
  "schedOpsRegistry (snd (Register name d st)) = (schedOpsRegistry st)(name \<mapsto> d)"
  by (simp add: Register_def)

lemma Register_all_registry:
  "schedOpsRegistry (Register_all regs st) name =
     (case map_of (rev regs) name of Some d \<Rightarrow> Some d | None \<Rightarrow> schedOpsRegistry st name)"
proof (induction regs arbitrary: st)
  case Nil
  show ?case by simp
next
  case (Cons r regs)
  obtain n d where r: "r = (n, d)" by (cases r)
  show ?case
    by (auto simp: r Cons.IH Register_registry map_add_def split: option.splits)
qed

text \<open>
  C3. \<^verbatim>\<open>Register\<close> never returns an error. Registering twice under one name leaves the
  second driver resolvable, and registering under another name does not change what the
  first name resolves to.
\<close>

theorem C3_register_last_write_wins:
  "fst (Register n d st) = None
   \<and> Get n (snd (Register n d2 (snd (Register n d1 st)))) = (d2, None)
   \<and> (m \<noteq> n \<longrightarrow> Get n (snd (Register m d st)) = Get n st)"
  by (simp add: Register_def Get_def)

theorem C3_register_last_write_wins_witness:
  "fst (Register ''k8s'' (Some (1::nat)) schedops_init) = None
   \<and> Get ''k8s'' (snd (Register ''k8s'' (Some 2) (snd (Register ''k8s'' (Some (1::nat)) schedops_init)))) = (Some 2, None)
   \<and> (''dcos'' \<noteq> ''k8s'' \<and> Get ''k8s'' (snd (Register ''dcos'' (Some 1) (snd (Register ''k8s'' (Some (7::nat)) schedops_init)))) = (Some 7, None))"
  using C3_register_last_write_wins [of "''k8s''" "Some (1::nat)" schedops_init "Some 2" "Some 1" "''dcos''"]
    C3_register_last_write_wins [of "''k8s''" "Some (1::nat)" "snd (Register ''k8s'' (Some (7::nat)) schedops_init)" "Some 2" "Some 7" "''dcos''"]
  by (simp add: Register_def Get_def schedops_init_def)

text \<open>
  C4. After any sequence of registrations from the empty registry, a name that was never
  registered resolves to a nil driver and an error carrying the name and the fixed type
  tag; a registered name resolves to the driver that was stored last under it, with a
  nil error.
\<close>

theorem C4_get_not_found_or_registered:
  "(n \<notin> fst ` set regs \<longrightarrow>
      Get n (Register_all regs schedops_init)
        = (None, Some \<lparr>ErrNotFound_ID = n, ErrNotFound_Type = ''Portworx Scheduler Operator''\<rparr>))
   \<and> (map_of (rev regs) n = Some d \<longrightarrow> Get n (Register_all regs schedops_init) = (d, None))"
proof -
  have "n \<notin> fst ` set regs \<Longrightarrow> map_of (rev regs) n = None"
    by (simp add: map_of_eq_None_iff)
  then show ?thesis
    by (auto simp: Get_def Register_all_registry schedops_init_def)
qed

theorem C4_get_not_found_or_registered_witness:
  "Get ''swarm'' (Register_all [(''k8s'', Some (1::nat)), (''dcos'', Some 2), (''k8s'', Some 3)] schedops_init)
        = (None, Some \<lparr>ErrNotFound_ID = ''swarm'', ErrNotFound_Type = ''Portworx Scheduler Operator''\<rparr>)
   \<and> Get ''k8s'' (Register_all [(''k8s'', Some (1::nat)), (''dcos'', Some 2), (''k8s'', Some 3)] schedops_init)
        = (Some 3, None)"
  using C4_get_not_found_or_registered
          [of "''swarm''" "[(''k8s'', Some (1::nat)), (''dcos'', Some 2), (''k8s'', Some 3)]" "Some 3"]
        C4_get_not_found_or_registered
          [of "''k8s''" "[(''k8s'', Some (1::nat)), (''dcos'', Some 2), (''k8s'', Some 3)]" "Some 3"]
  by simp

subsection \<open>Pods and their owners\<close>

lemma IsPodRunning_init_loop_iff:
  "IsPodRunning_init_loop cs = (if \<exists>c\<in>set cs. Running (cs_State c) \<noteq> None then Some False else None)"
  by (induction cs) auto

lemma IsPodRunning_loop_iff:
  "IsPodRunning_loop cs = (if \<exists>c\<in>set cs. Running (cs_State c) = None then Some False else None)"
  by (induction cs) auto

text \<open>\<^verbatim>\<open>IsPodRunning\<close> decides whether the pod is fully running.\<close>

lemma IsPodRunning_iff: "IsPodRunning pod \<longleftrightarrow> spec_fully_running pod"
  by (auto simp: IsPodRunning_def spec_fully_running_def IsPodRunning_init_loop_iff IsPodRunning_loop_iff)

lemma ValidateDeployement_loop_None:
  "ValidateDeployement_loop pods = None \<longleftrightarrow> (\<forall>pod\<in>set pods. IsPodRunning pod)"
  by (induction pods) auto

lemma ValidateDeployement_loop_Some:
  "ValidateDeployement_loop pods = Some pod \<Longrightarrow> pod \<in> set pods \<and> \<not> IsPodRunning pod"
  by (induction pods) (auto split: if_splits)

lemma slice_elems_simps: "slice_elems None = []" "slice_elems (Some xs) = xs"
  by (simp_all add: slice_elems_def)

lemma slice_append_not_empty: "slice_append sl x \<noteq> Some []"
  by (simp add: slice_append_def split: option.splits)

lemma GetReplicaSetPods_owner_loop_elems:
  "slice_elems (GetReplicaSetPods_owner_loop rSet pod owners result)
     = slice_elems result @ replicate (length (filter (\<lambda>owner. owner_Name owner = rs_Name rSet) owners)) pod"
  by (induction owners arbitrary: result)
     (auto simp: slice_elems_def slice_append_def replicate_append_same split: option.splits)

lemma GetReplicaSetPods_owner_loop_not_empty:
  "result \<noteq> Some [] \<Longrightarrow> GetReplicaSetPods_owner_loop rSet pod owners result \<noteq> Some []"
  by (induction owners arbitrary: result) (auto simp: slice_append_not_empty)

lemma GetReplicaSetPods_loop_elems:
  "slice_elems (GetReplicaSetPods_loop rSet pods result)
     = slice_elems result @ concat (map (\<lambda>pod. replicate (length (filter (\<lambda>owner. owner_Name owner = rs_Name rSet) (pod_OwnerReferences pod))) pod) pods)"
  by (induction pods arbitrary: result) (auto simp: GetReplicaSetPods_owner_loop_elems)

lemma GetReplicaSetPods_loop_not_empty:
  "result \<noteq> Some [] \<Longrightarrow> GetReplicaSetPods_loop rSet pods result \<noteq> Some []"
  by (induction pods arbitrary: result) (auto simp: GetReplicaSetPods_owner_loop_not_empty)

text \<open>The slice of pods that is returned is nil or has an element.\<close>

lemma GetReplicaSetPods_not_empty:
  "GetReplicaSetPods api rSet w = ((pods, err), w') \<Longrightarrow> pods \<noteq> Some []"
  using GetReplicaSetPods_loop_not_empty [of None rSet]
  by (auto simp: GetReplicaSetPods_def split: prod.splits option.splits sum.splits)

lemma GetDeploymentPods_loop_not_empty:
  "GetDeploymentPods_loop api deployment rSets w = ((pods, err), w') \<Longrightarrow> pods \<noteq> Some []"
  by (induction rSets) (auto split: if_splits dest: GetReplicaSetPods_not_empty)

lemma GetDeploymentPods_not_empty:
  "GetDeploymentPods api deployment w = ((pods, err), w') \<Longrightarrow> pods \<noteq> Some []"
  by (auto simp: GetDeploymentPods_def split: prod.splits option.splits sum.splits
      dest: GetDeploymentPods_loop_not_empty)

lemma GetDeploymentPods_nil_iff:
  "GetDeploymentPods api deployment w = ((pods, err), w') \<Longrightarrow> pods = None \<longleftrightarrow> slice_elems pods = []"
  using GetDeploymentPods_not_empty [of api deployment w pods err w']
  by (auto simp: slice_elems_def split: option.splits)

lemma GetDeploymentPods_owner_loop_iff:
  "GetDeploymentPods_owner_loop deployment owners
     \<longleftrightarrow> (\<exists>owner\<in>set owners. owner_Name owner = dep_Name deployment)"
  by (induction owners) auto

lemma GetDeploymentPods_loop_find:
  "GetDeploymentPods_loop api deployment rSets w =
     (case find (\<lambda>rSet. \<exists>owner\<in>set (rs_OwnerReferences rSet). owner_Name owner = dep_Name deployment) rSets of
        None \<Rightarrow> ((None, None), w)
      | Some rSet \<Rightarrow> GetReplicaSetPods api rSet w)"
  by (induction rSets) (auto simp: GetDeploymentPods_owner_loop_iff)

subsection \<open>Runs of the scripted API\<close>

lemma scripted_api_simps:
  "rest_InClusterConfig (scripted_api sc) t = (on_InClusterConfig sc t, Suc t)"
  "kubernetes_NewForConfig (scripted_api sc) config t = (on_NewForConfig sc t, Suc t)"
  "Nodes_Get (scripted_api sc) name t = (on_Nodes_Get sc t name, Suc t)"
  "Nodes_Update (scripted_api sc) node t = (on_Nodes_Update sc t node, Suc t)"
  "Deployments_Get (scripted_api sc) namespace name t = (on_Deployments_Get sc t namespace name, Suc t)"
  "ReplicaSets_List (scripted_api sc) namespace t = (on_ReplicaSets_List sc t namespace, Suc t)"
  "Pods_List (scripted_api sc) namespace t = (on_Pods_List sc t namespace, Suc t)"
  "PersistentVolumeClaims_Get (scripted_api sc) namespace name t = (on_PersistentVolumeClaims_Get sc t namespace name, Suc t)"
  "StorageClasses_Get (scripted_api sc) name t = (on_StorageClasses_Get sc t name, Suc t)"
  by (simp_all add: scripted_api_def)

lemmas run_simps =
  scripted_api_simps api_call_def GetK8sClient_def loadClientFromServiceAccount_def
  GetNodeByName_def GetDeploymentPods_def GetReplicaSetPods_def unreachable_def

subsection \<open>Deployment readiness\<close>

lemma ValidateDeployement_t_result:
  assumes "GetK8sClient api w = ((client, None), w1)"
    and "api_call (Deployments_Get api (dep_Namespace deployment) (dep_Name deployment))
           (Call_Deployments_Get (dep_Namespace deployment) (dep_Name deployment)) w1 = (Inr dep, w2)"
    and "Spec_Replicas dep = Some replicas"
    and "GetDeploymentPods api deployment w2 = ((pods, err), w3)"
  shows "fst (ValidateDeployement_t api deployment w) \<noteq> Panic"
    and "fst (ValidateDeployement_t api deployment w) = Return None \<longleftrightarrow>
           AvailableReplicas dep = replicas \<and> ReadyReplicas dep = replicas
           \<and> err = None \<and> pods \<noteq> None \<and> (\<forall>pod\<in>set (slice_elems pods). IsPodRunning pod)"
  using assms
  by (auto simp: ValidateDeployement_t_def ValidateDeployement_loop_None split: option.splits
      dest: ValidateDeployement_loop_Some)

lemma ValidateDeployement_loop_find:
  "ValidateDeployement_loop pods = find (\<lambda>pod. \<not> spec_fully_running pod) pods"
  by (induction pods) (simp_all add: IsPodRunning_iff)

lemma ValidateDeployement_t_exact:
  assumes "GetK8sClient api w = ((client, None), w1)"
    and "api_call (Deployments_Get api (dep_Namespace deployment) (dep_Name deployment))
           (Call_Deployments_Get (dep_Namespace deployment) (dep_Name deployment)) w1 = (Inr dep, w2)"
    and "Spec_Replicas dep = Some replicas"
    and "GetDeploymentPods api deployment w2 = ((pods, err), w3)"
  shows "ValidateDeployement_t api deployment w =
          (if AvailableReplicas dep \<noteq> replicas then
             (Return (Some (ErrAppNotReady (dep_Name dep)
                (Sprintf ''Expected replicas: %v Available replicas: %v''
                   [V_int32 replicas, V_int32 (AvailableReplicas dep)]))), w2)
           else if ReadyReplicas dep \<noteq> replicas then
             (Return (Some (ErrAppNotReady (dep_Name dep)
                (Sprintf ''Expected replicas: %v Ready replicas: %v''
                   [V_int32 replicas, V_int32 (ReadyReplicas dep)]))), w2)
           else if err \<noteq> None \<or> slice_elems pods = [] then
             (Return (Some (ErrAppNotReady (dep_Name dep)
                (Sprintf ''Failed to get pods for deployment. Err: %v'' [V_error err]))), w3)
           else
             (case find (\<lambda>pod. \<not> spec_fully_running pod) (slice_elems pods) of
                Some pod \<Rightarrow>
                  (Return (Some (ErrAppNotReady (dep_Name dep)
                     (Sprintf ''pod: %v is not yet ready'' [V_string (pod_Name pod)]))), w3)
              | None \<Rightarrow> (Return None, w3)))"
proof -
  have nil: "pods = None \<longleftrightarrow> slice_elems pods = []"
    by (rule GetDeploymentPods_nil_iff [OF assms(4)])
  show ?thesis
    using assms nil
    by (auto simp: ValidateDeployement_t_def ValidateDeployement_loop_find split: option.splits)
qed

text \<open>
  C1. The readiness predicate of \<^verbatim>\<open>ValidateDeployement\<close>, for a run in which the client is
  obtained, the deployment is read and its desired replica count is set. It returns a
  failure whenever the available or the ready replica count differs from the desired
  count, or some pod resolved for the deployment is not fully running. It returns success
  exactly when both counts equal the desired count, the pods are resolved without error,
  at least one pod is resolved, and every resolved pod is fully running. In full: it
  returns the error of the available count when that differs, else the error of the ready
  count when that differs, else the error \<^verbatim>\<open>Failed to get pods for deployment\<close> when the
  resolution of the pods fails or resolves no pod, else the error that names the first
  resolved pod that is not fully running, else nil.
\<close>

theorem C1_readiness_amended:
  assumes "GetK8sClient api w = ((client, None), w1)"
    and "api_call (Deployments_Get api (dep_Namespace deployment) (dep_Name deployment))
           (Call_Deployments_Get (dep_Namespace deployment) (dep_Name deployment)) w1 = (Inr dep, w2)"
    and "Spec_Replicas dep = Some replicas"
    and "GetDeploymentPods api deployment w2 = ((pods, err), w3)"
  shows "(AvailableReplicas dep \<noteq> replicas \<or> ReadyReplicas dep \<noteq> replicas
            \<or> (\<exists>pod\<in>set (slice_elems pods). \<not> spec_fully_running pod)
          \<longrightarrow> (\<exists>e. fst (ValidateDeployement_t api deployment w) = Return (Some e)))
       \<and> (fst (ValidateDeployement_t api deployment w) = Return None \<longleftrightarrow>
            AvailableReplicas dep = replicas \<and> ReadyReplicas dep = replicas
            \<and> err = None \<and> slice_elems pods \<noteq> []
            \<and> (\<forall>pod\<in>set (slice_elems pods). spec_fully_running pod))
       \<and> (AvailableReplicas dep = replicas \<and> ReadyReplicas dep = replicas
            \<and> (err \<noteq> None \<or> slice_elems pods = [])
          \<longrightarrow> ValidateDeployement_t api deployment w =
                (Return (Some (ErrAppNotReady (dep_Name dep)
                   (Sprintf ''Failed to get pods for deployment. Err: %v'' [V_error err]))), w3))
       \<and> ValidateDeployement_t api deployment w =
          (if AvailableReplicas dep \<noteq> replicas then
             (Return (Some (ErrAppNotReady (dep_Name dep)
                (Sprintf ''Expected replicas: %v Available replicas: %v''
                   [V_int32 replicas, V_int32 (AvailableReplicas dep)]))), w2)
           else if ReadyReplicas dep \<noteq> replicas then
             (Return (Some (ErrAppNotReady (dep_Name dep)
                (Sprintf ''Expected replicas: %v Ready replicas: %v''
                   [V_int32 replicas, V_int32 (ReadyReplicas dep)]))), w2)
           else if err \<noteq> None \<or> slice_elems pods = [] then
             (Return (Some (ErrAppNotReady (dep_Name dep)
                (Sprintf ''Failed to get pods for deployment. Err: %v'' [V_error err]))), w3)
           else
             (case find (\<lambda>pod. \<not> spec_fully_running pod) (slice_elems pods) of
                Some pod \<Rightarrow>
                  (Return (Some (ErrAppNotReady (dep_Name dep)
                     (Sprintf ''pod: %v is not yet ready'' [V_string (pod_Name pod)]))), w3)
              | None \<Rightarrow> (Return None, w3)))"
proof -
  let ?r = "fst (ValidateDeployement_t api deployment w)"
  have iff: "?r = Return None \<longleftrightarrow>
           AvailableReplicas dep = replicas \<and> ReadyReplicas dep = replicas
           \<and> err = None \<and> pods \<noteq> None \<and> (\<forall>pod\<in>set (slice_elems pods). IsPodRunning pod)"
    by (rule ValidateDeployement_t_result(2) [OF assms])
  have np: "?r \<noteq> Panic"
    by (rule ValidateDeployement_t_result(1) [OF assms])
  have nil: "pods = None \<longleftrightarrow> slice_elems pods = []"
    by (rule GetDeploymentPods_nil_iff [OF assms(4)])
  have fails: "?r \<noteq> Return None \<Longrightarrow> \<exists>e. ?r = Return (Some e)"
    using np by (cases ?r) auto
  have a: "AvailableReplicas dep \<noteq> replicas \<or> ReadyReplicas dep \<noteq> replicas
            \<or> (\<exists>pod\<in>set (slice_elems pods). \<not> spec_fully_running pod)
          \<longrightarrow> (\<exists>e. ?r = Return (Some e))"
    using iff fails by (auto simp: IsPodRunning_iff)
  have b: "?r = Return None \<longleftrightarrow>
            AvailableReplicas dep = replicas \<and> ReadyReplicas dep = replicas
            \<and> err = None \<and> slice_elems pods \<noteq> []
            \<and> (\<forall>pod\<in>set (slice_elems pods). spec_fully_running pod)"
    using iff nil by (auto simp: IsPodRunning_iff)
  note exact = ValidateDeployement_t_exact [OF assms]
  have c: "AvailableReplicas dep = replicas \<and> ReadyReplicas dep = replicas
            \<and> (err \<noteq> None \<or> slice_elems pods = [])
          \<longrightarrow> ValidateDeployement_t api deployment w =
                (Return (Some (ErrAppNotReady (dep_Name dep)
                   (Sprintf ''Failed to get pods for deployment. Err: %v'' [V_error err]))), w3)"
    by (simp add: exact)
  from a b c exact show ?thesis by blast
qed

theorem C1_readiness_amended_witness:
  "fst (ValidateDeployement_t (scripted_api db_running) db (0, [])) = Return None
   \<and> slice_elems (fst (fst (GetDeploymentPods (scripted_api db_running) db (0, [])))) = [db_pod]
   \<and> spec_fully_running db_pod
   \<and> fst (GetDeploymentPods (scripted_api scaled_to_zero) web (0, [])) = (None, None)
   \<and> fst (ValidateDeployement_t (scripted_api scaled_to_zero) web (0, []))
       = Return (Some (ErrAppNotReady ''web''
           (Sprintf ''Failed to get pods for deployment. Err: %v'' [V_error None])))"
proof -
  let ?api = "scripted_api db_running"
  let ?w1 = "snd (GetK8sClient ?api (0, []))"
  let ?w2 = "snd (api_call (Deployments_Get ?api (dep_Namespace db) (dep_Name db))
                   (Call_Deployments_Get (dep_Namespace db) (dep_Name db)) ?w1)"
  let ?w3 = "snd (GetDeploymentPods ?api db ?w2)"
  have h1: "GetK8sClient ?api (0, []) = ((Some Clientset, None), ?w1)"
    by (simp add: run_simps db_running_def)
  have h2: "api_call (Deployments_Get ?api (dep_Namespace db) (dep_Name db))
              (Call_Deployments_Get (dep_Namespace db) (dep_Name db)) ?w1 = (Inr db, ?w2)"
    by (simp add: run_simps db_running_def)
  have h3: "Spec_Replicas db = Some 1"
    by (simp add: db_def)
  have h4: "GetDeploymentPods ?api db ?w2 = ((Some [db_pod], None), ?w3)"
    by (simp add: run_simps db_running_def db_def db_rs_def web_rs_def db_pod_def slice_append_def)
  have pods: "slice_elems (fst (fst (GetDeploymentPods ?api db (0, [])))) = [db_pod]"
    by (simp add: run_simps db_running_def db_def db_rs_def web_rs_def db_pod_def slice_append_def
          slice_elems_def)
  have run: "spec_fully_running db_pod"
    by (simp add: spec_fully_running_def db_pod_def)
  have up: "fst (ValidateDeployement_t ?api db (0, [])) = Return None"
    using C1_readiness_amended [OF h1 h2 h3 h4, THEN conjunct2, THEN conjunct1] run
    by (simp add: db_def slice_elems_def)
  let ?zero = "scripted_api scaled_to_zero"
  let ?z1 = "snd (GetK8sClient ?zero (0, []))"
  let ?z2 = "snd (api_call (Deployments_Get ?zero (dep_Namespace web) (dep_Name web))
                   (Call_Deployments_Get (dep_Namespace web) (dep_Name web)) ?z1)"
  let ?z3 = "snd (GetDeploymentPods ?zero web ?z2)"
  have z1: "GetK8sClient ?zero (0, []) = ((Some Clientset, None), ?z1)"
    by (simp add: run_simps scaled_to_zero_def)
  have z2: "api_call (Deployments_Get ?zero (dep_Namespace web) (dep_Name web))
              (Call_Deployments_Get (dep_Namespace web) (dep_Name web)) ?z1 = (Inr web, ?z2)"
    by (simp add: run_simps scaled_to_zero_def)
  have z3: "Spec_Replicas web = Some 0"
    by (simp add: web_def)
  have z4: "GetDeploymentPods ?zero web ?z2 = ((None, None), ?z3)"
    by (simp add: run_simps scaled_to_zero_def web_def web_rs_def)
  have none: "fst (GetDeploymentPods ?zero web (0, [])) = (None, None)"
    by (simp add: run_simps scaled_to_zero_def web_def web_rs_def)
  have cond: "AvailableReplicas web = 0 \<and> ReadyReplicas web = 0
                \<and> ((None :: error option) \<noteq> None \<or> slice_elems (None :: Pod slice) = [])"
    by (simp add: web_def slice_elems_def)
  have down: "fst (ValidateDeployement_t ?zero web (0, []))
       = Return (Some (ErrAppNotReady ''web''
           (Sprintf ''Failed to get pods for deployment. Err: %v'' [V_error None])))"
    using C1_readiness_amended [OF z1 z2 z3 z4, THEN conjunct2, THEN conjunct2, THEN conjunct1,
            THEN mp, OF cond]
    by (simp add: web_def)
  from up pods run none down show ?thesis by blast
qed

theorem C1_readiness_counterexample:
  "Spec_Replicas web = Some 0 \<and> AvailableReplicas web = 0 \<and> ReadyReplicas web = 0
   \<and> fst (GetDeploymentPods (scripted_api scaled_to_zero) web (0, [])) = (None, None)
   \<and> list_all spec_fully_running
        (slice_elems (fst (fst (GetDeploymentPods (scripted_api scaled_to_zero) web (0, [])))))
   \<and> fst (ValidateDeployement_t (scripted_api scaled_to_zero) web (0, []))
       = Return (Some (ErrAppNotReady ''web''
           (Sprintf ''Failed to get pods for deployment. Err: %v'' [V_error None])))"
  by (simp add: run_simps scaled_to_zero_def web_def web_rs_def
        ValidateDeployement_t_def slice_elems_def)

text \<open>
  C10. A pod with no init-container status and no container status is running for
  \<^verbatim>\<open>IsPodRunning\<close>; and the readiness predicate returns success when the replica
  counts agree and every resolved pod is such a pod.
\<close>

theorem C10_empty_statuses_running:
  "(InitContainerStatuses pod = [] \<and> ContainerStatuses pod = [] \<longrightarrow> IsPodRunning pod)
   \<and> (GetK8sClient api w = ((client, None), w1)
      \<and> api_call (Deployments_Get api (dep_Namespace deployment) (dep_Name deployment))
           (Call_Deployments_Get (dep_Namespace deployment) (dep_Name deployment)) w1 = (Inr dep, w2)
      \<and> Spec_Replicas dep = Some (AvailableReplicas dep)
      \<and> ReadyReplicas dep = AvailableReplicas dep
      \<and> GetDeploymentPods api deployment w2 = ((Some pods, None), w3)
      \<and> (\<forall>pod\<in>set pods. InitContainerStatuses pod = [] \<and> ContainerStatuses pod = [])
      \<longrightarrow> ValidateDeployement_t api deployment w = (Return None, w3))"
proof -
  have a: "IsPodRunning p" if "InitContainerStatuses p = [] \<and> ContainerStatuses p = []" for p
    using that by (simp add: IsPodRunning_def)
  then have "ValidateDeployement_loop pods = None"
    if "\<forall>pod\<in>set pods. InitContainerStatuses pod = [] \<and> ContainerStatuses pod = []"
    using that by (simp add: ValidateDeployement_loop_None)
  then show ?thesis
    using a by (auto simp: ValidateDeployement_t_def slice_elems_def)
qed

theorem C10_empty_statuses_running_witness:
  "InitContainerStatuses db_pod_unreported = [] \<and> ContainerStatuses db_pod_unreported = []
   \<and> IsPodRunning db_pod_unreported
   \<and> fst (ValidateDeployement_t (scripted_api db_unreported) db (0, [])) = Return None"
proof -
  let ?api = "scripted_api db_unreported"
  let ?w1 = "snd (GetK8sClient ?api (0, []))"
  let ?w2 = "snd (api_call (Deployments_Get ?api (dep_Namespace db) (dep_Name db))
                   (Call_Deployments_Get (dep_Namespace db) (dep_Name db)) ?w1)"
  let ?w3 = "snd (GetDeploymentPods ?api db ?w2)"
  have e: "InitContainerStatuses db_pod_unreported = [] \<and> ContainerStatuses db_pod_unreported = []"
    by (simp add: db_pod_unreported_def)
  have h1: "GetK8sClient ?api (0, []) = ((Some Clientset, None), ?w1)"
    by (simp add: run_simps db_unreported_def db_running_def)
  have h2: "api_call (Deployments_Get ?api (dep_Namespace db) (dep_Name db))
              (Call_Deployments_Get (dep_Namespace db) (dep_Name db)) ?w1 = (Inr db, ?w2)"
    by (simp add: run_simps db_unreported_def db_running_def)
  have h3: "Spec_Replicas db = Some (AvailableReplicas db) \<and> ReadyReplicas db = AvailableReplicas db"
    by (simp add: db_def)
  have h4: "GetDeploymentPods ?api db ?w2 = ((Some [db_pod_unreported], None), ?w3)"
    by (simp add: run_simps db_unreported_def db_running_def db_def db_rs_def web_rs_def
          db_pod_unreported_def db_pod_def slice_append_def)
  from C10_empty_statuses_running
         [of db_pod_unreported ?api "(0, [])" "Some Clientset" ?w1 db db ?w2 "[db_pod_unreported]" ?w3]
       e h1 h2 h3 h4
  show ?thesis by simp
qed

subsection \<open>Deployment teardown\<close>

text \<open>
  The pattern matches the texts in which \<^verbatim>\<open>" not found"\<close> follows a character that is
  not a newline.
\<close>

lemma MatchString_not_found_iff:
  "MatchString_not_found s \<longleftrightarrow>
     (\<exists>pre c post. s = pre @ c # '' not found'' @ post \<and> c \<noteq> CHR 0x0A)"
proof
  show "MatchString_not_found s \<Longrightarrow>
     \<exists>pre c post. s = pre @ c # '' not found'' @ post \<and> c \<noteq> CHR 0x0A"
  proof (induction s)
    case Nil
    then show ?case by simp
  next
    case (Cons a s)
    show ?case
    proof (cases "a \<noteq> CHR 0x0A \<and> take 10 s = '' not found''")
      case True
      then have "a # s = [] @ a # '' not found'' @ drop 10 s"
        using append_take_drop_id [of 10 s] by simp
      with True show ?thesis by blast
    next
      case False
      with Cons.prems have "MatchString_not_found s" by auto
      then obtain pre c post where "s = pre @ c # '' not found'' @ post" "c \<noteq> CHR 0x0A"
        using Cons.IH by blast
      then have "a # s = (a # pre) @ c # '' not found'' @ post" by simp
      with \<open>c \<noteq> CHR 0x0A\<close> show ?thesis by blast
    qed
  qed
next
  assume "\<exists>pre c post. s = pre @ c # '' not found'' @ post \<and> c \<noteq> CHR 0x0A"
  then obtain pre c post where s: "s = pre @ c # '' not found'' @ post" and c: "c \<noteq> CHR 0x0A"
    by blast
  have "MatchString_not_found (pre @ c # '' not found'' @ post)"
    using c by (induction pre) simp_all
  then show "MatchString_not_found s" by (simp add: s)
qed

text \<open>
  C2. The teardown predicate of \<^verbatim>\<open>ValidateTerminatedDeployment\<close>, once the client is
  obtained. When the read of the deployment fails with a text that matches the not-found
  pattern it returns success at once, without a further call; with any other text it
  returns that error. When the read succeeds and the pods are resolved, it returns a
  failure while there is a pod and success when there is none. The readiness predicate,
  the claim predicate, \<^verbatim>\<open>ValidateStorageClass\<close> and \<^verbatim>\<open>IsNodeReady\<close> return the error
  of a failed read whatever its text, a not-found text included.
\<close>

theorem C2_teardown_not_found:
  assumes "GetK8sClient api w = ((client, None), w1)"
  shows "(api_call (Deployments_Get api (dep_Namespace deployment) (dep_Name deployment))
            (Call_Deployments_Get (dep_Namespace deployment) (dep_Name deployment)) w1 = (Inl msg, w2)
          \<longrightarrow> ValidateTerminatedDeployment_t api deployment w
                = (if MatchString_not_found msg then (Return None, w2)
                   else (Return (Some (ApiError msg)), w2)))
       \<and> (api_call (Deployments_Get api (dep_Namespace deployment) (dep_Name deployment))
            (Call_Deployments_Get (dep_Namespace deployment) (dep_Name deployment)) w1 = (Inr dep, w2)
          \<and> GetDeploymentPods api deployment w2 = ((pods, None), w3)
          \<longrightarrow> (slice_elems pods \<noteq> [] \<longrightarrow>
                 (\<exists>e. ValidateTerminatedDeployment_t api deployment w = (Return (Some e), w3)))
              \<and> (slice_elems pods = [] \<longrightarrow>
                 ValidateTerminatedDeployment_t api deployment w = (Return None, w3)))
       \<and> (api_call (Deployments_Get api (dep_Namespace deployment) (dep_Name deployment))
            (Call_Deployments_Get (dep_Namespace deployment) (dep_Name deployment)) w1 = (Inl msg, w2)
          \<longrightarrow> ValidateDeployement_t api deployment w = (Return (Some (ApiError msg)), w2))
       \<and> (api_call (PersistentVolumeClaims_Get api (pvc_Namespace pvc) (pvc_Name pvc))
            (Call_PersistentVolumeClaims_Get (pvc_Namespace pvc) (pvc_Name pvc)) w1 = (Inl msg, w2)
          \<longrightarrow> ValidatePersistentVolumeClaim_t api pvc w = (Return (Some (ApiError msg)), w2))
       \<and> (api_call (StorageClasses_Get api (sc_Name sc)) (Call_StorageClasses_Get (sc_Name sc)) w1
            = (Inl msg, w2)
          \<longrightarrow> ValidateStorageClass api sc w = (Return (Some (ApiError msg)), w2))
       \<and> (api_call (Nodes_Get api name) (Call_Nodes_Get name) w1 = (Inl msg, w2)
          \<longrightarrow> IsNodeReady api name w = (Return (Some (ApiError msg)), w2))"
proof -
  have a: "api_call (Deployments_Get api (dep_Namespace deployment) (dep_Name deployment))
            (Call_Deployments_Get (dep_Namespace deployment) (dep_Name deployment)) w1 = (Inl msg, w2)
          \<Longrightarrow> ValidateTerminatedDeployment_t api deployment w
                = (if MatchString_not_found msg then (Return None, w2)
                   else (Return (Some (ApiError msg)), w2))"
    using assms by (simp add: ValidateTerminatedDeployment_t_def)
  have b: "api_call (Deployments_Get api (dep_Namespace deployment) (dep_Name deployment))
            (Call_Deployments_Get (dep_Namespace deployment) (dep_Name deployment)) w1 = (Inr dep, w2)
          \<Longrightarrow> GetDeploymentPods api deployment w2 = ((pods, None), w3)
          \<Longrightarrow> (slice_elems pods \<noteq> [] \<longrightarrow>
                 (\<exists>e. ValidateTerminatedDeployment_t api deployment w = (Return (Some e), w3)))
              \<and> (slice_elems pods = [] \<longrightarrow>
                 ValidateTerminatedDeployment_t api deployment w = (Return None, w3))"
    using assms
    by (auto simp: ValidateTerminatedDeployment_t_def slice_len_def slice_elems_def)
  have c: "api_call (Deployments_Get api (dep_Namespace deployment) (dep_Name deployment))
            (Call_Deployments_Get (dep_Namespace deployment) (dep_Name deployment)) w1 = (Inl msg, w2)
          \<Longrightarrow> ValidateDeployement_t api deployment w = (Return (Some (ApiError msg)), w2)"
    using assms by (simp add: ValidateDeployement_t_def)
  have d: "api_call (PersistentVolumeClaims_Get api (pvc_Namespace pvc) (pvc_Name pvc))
            (Call_PersistentVolumeClaims_Get (pvc_Namespace pvc) (pvc_Name pvc)) w1 = (Inl msg, w2)
          \<Longrightarrow> ValidatePersistentVolumeClaim_t api pvc w = (Return (Some (ApiError msg)), w2)"
    using assms by (simp add: ValidatePersistentVolumeClaim_t_def)
  have e: "api_call (StorageClasses_Get api (sc_Name sc)) (Call_StorageClasses_Get (sc_Name sc)) w1
            = (Inl msg, w2)
          \<Longrightarrow> ValidateStorageClass api sc w = (Return (Some (ApiError msg)), w2)"
    using assms by (simp add: ValidateStorageClass_def)
  have f: "api_call (Nodes_Get api name) (Call_Nodes_Get name) w1 = (Inl msg, w2)
          \<Longrightarrow> IsNodeReady api name w = (Return (Some (ApiError msg)), w2)"
    using assms by (simp add: IsNodeReady_def GetNodeByName_def)
  from a b c d e f show ?thesis by blast
qed

theorem C2_teardown_not_found_witness:
  "MatchString_not_found ''deployments.extensions web not found''
   \<and> fst (ValidateTerminatedDeployment_t (scripted_api all_deleted) web (0, [])) = Return None
   \<and> fst (ValidateDeployement_t (scripted_api all_deleted) web (0, []))
        = Return (Some (ApiError ''deployments.extensions web not found''))
   \<and> fst (ValidatePersistentVolumeClaim_t (scripted_api all_deleted) data (0, []))
        = Return (Some (ApiError ''persistentvolumeclaims data not found''))
   \<and> fst (ValidateStorageClass (scripted_api all_deleted) fast (0, []))
        = Return (Some (ApiError ''storageclasses.storage.k8s.io fast not found''))
   \<and> fst (IsNodeReady (scripted_api all_deleted) ''node1'' (0, []))
        = Return (Some (ApiError ''nodes node1 not found''))
   \<and> (\<exists>e. fst (ValidateTerminatedDeployment_t (scripted_api db_running) db (0, [])) = Return (Some e))
   \<and> fst (ValidateTerminatedDeployment_t (scripted_api db_drained) db (0, [])) = Return None"
proof -
  let ?gone = "scripted_api all_deleted"
  let ?g1 = "snd (GetK8sClient ?gone (0, []))"
  have g1: "GetK8sClient ?gone (0, []) = ((Some Clientset, None), ?g1)"
    by (simp add: run_simps all_deleted_def)
  have m: "MatchString_not_found ''deployments.extensions web not found''"
    by simp
  have dep: "api_call (Deployments_Get ?gone (dep_Namespace web) (dep_Name web))
               (Call_Deployments_Get (dep_Namespace web) (dep_Name web)) ?g1
             = (Inl ''deployments.extensions web not found'',
                snd (api_call (Deployments_Get ?gone (dep_Namespace web) (dep_Name web))
                       (Call_Deployments_Get (dep_Namespace web) (dep_Name web)) ?g1))"
    by (simp add: run_simps all_deleted_def)
  have pvc: "api_call (PersistentVolumeClaims_Get ?gone (pvc_Namespace data) (pvc_Name data))
               (Call_PersistentVolumeClaims_Get (pvc_Namespace data) (pvc_Name data)) ?g1
             = (Inl ''persistentvolumeclaims data not found'',
                snd (api_call (PersistentVolumeClaims_Get ?gone (pvc_Namespace data) (pvc_Name data))
                       (Call_PersistentVolumeClaims_Get (pvc_Namespace data) (pvc_Name data)) ?g1))"
    by (simp add: run_simps all_deleted_def)
  have sc: "api_call (StorageClasses_Get ?gone (sc_Name fast)) (Call_StorageClasses_Get (sc_Name fast)) ?g1
             = (Inl ''storageclasses.storage.k8s.io fast not found'',
                snd (api_call (StorageClasses_Get ?gone (sc_Name fast))
                       (Call_StorageClasses_Get (sc_Name fast)) ?g1))"
    by (simp add: run_simps all_deleted_def)
  have node: "api_call (Nodes_Get ?gone ''node1'') (Call_Nodes_Get ''node1'') ?g1
             = (Inl ''nodes node1 not found'',
                snd (api_call (Nodes_Get ?gone ''node1'') (Call_Nodes_Get ''node1'') ?g1))"
    by (simp add: run_simps all_deleted_def)
  note gone = C2_teardown_not_found [OF g1]
  have a: "fst (ValidateTerminatedDeployment_t ?gone web (0, [])) = Return None"
    using gone [THEN conjunct1, THEN mp, OF dep] by simp
  have b: "fst (ValidateDeployement_t ?gone web (0, []))
        = Return (Some (ApiError ''deployments.extensions web not found''))"
    using gone [THEN conjunct2, THEN conjunct2, THEN conjunct1, THEN mp, OF dep] by simp
  have c: "fst (ValidatePersistentVolumeClaim_t ?gone data (0, []))
        = Return (Some (ApiError ''persistentvolumeclaims data not found''))"
    using gone [THEN conjunct2, THEN conjunct2, THEN conjunct2, THEN conjunct1, THEN mp, OF pvc]
    by simp
  have d: "fst (ValidateStorageClass ?gone fast (0, []))
        = Return (Some (ApiError ''storageclasses.storage.k8s.io fast not found''))"
    using gone [THEN conjunct2, THEN conjunct2, THEN conjunct2, THEN conjunct2, THEN conjunct1,
                THEN mp, OF sc]
    by simp
  have e: "fst (IsNodeReady ?gone ''node1'' (0, []))
        = Return (Some (ApiError ''nodes node1 not found''))"
    using gone [THEN conjunct2, THEN conjunct2, THEN conjunct2, THEN conjunct2, THEN conjunct2,
                THEN mp, OF node]
    by simp
  let ?up = "scripted_api db_running"
  let ?u1 = "snd (GetK8sClient ?up (0, []))"
  let ?u2 = "snd (api_call (Deployments_Get ?up (dep_Namespace db) (dep_Name db))
                   (Call_Deployments_Get (dep_Namespace db) (dep_Name db)) ?u1)"
  have u1: "GetK8sClient ?up (0, []) = ((Some Clientset, None), ?u1)"
    by (simp add: run_simps db_running_def)
  have u2: "api_call (Deployments_Get ?up (dep_Namespace db) (dep_Name db))
              (Call_Deployments_Get (dep_Namespace db) (dep_Name db)) ?u1 = (Inr db, ?u2)"
    by (simp add: run_simps db_running_def)
  have u3: "GetDeploymentPods ?up db ?u2 = ((Some [db_pod], None), snd (GetDeploymentPods ?up db ?u2))"
    by (simp add: run_simps db_running_def db_def db_rs_def web_rs_def db_pod_def slice_append_def)
  have f: "\<exists>e. fst (ValidateTerminatedDeployment_t ?up db (0, [])) = Return (Some e)"
    using C2_teardown_not_found [OF u1, THEN conjunct2, THEN conjunct1, THEN mp, OF conjI [OF u2 u3]]
    by (auto simp: slice_elems_def)
  let ?dr = "scripted_api db_drained"
  let ?d1 = "snd (GetK8sClient ?dr (0, []))"
  let ?d2 = "snd (api_call (Deployments_Get ?dr (dep_Namespace db) (dep_Name db))
                   (Call_Deployments_Get (dep_Namespace db) (dep_Name db)) ?d1)"
  have d1: "GetK8sClient ?dr (0, []) = ((Some Clientset, None), ?d1)"
    by (simp add: run_simps db_drained_def db_running_def)
  have d2: "api_call (Deployments_Get ?dr (dep_Namespace db) (dep_Name db))
              (Call_Deployments_Get (dep_Namespace db) (dep_Name db)) ?d1 = (Inr db, ?d2)"
    by (simp add: run_simps db_drained_def db_running_def)
  have d3: "GetDeploymentPods ?dr db ?d2 = ((None, None), snd (GetDeploymentPods ?dr db ?d2))"
    by (simp add: run_simps db_drained_def db_running_def db_def db_rs_def web_rs_def)
  have g: "fst (ValidateTerminatedDeployment_t ?dr db (0, [])) = Return None"
    using C2_teardown_not_found [OF d1, THEN conjunct2, THEN conjunct1, THEN mp, OF conjI [OF d2 d3]]
    by (simp add: slice_elems_def)
  from m a b c d e f g show ?thesis by blast
qed

subsection \<open>Claims and nodes\<close>

text \<open>
  C5. The predicate of \<^verbatim>\<open>ValidatePersistentVolumeClaim\<close>, once the client is obtained and
  the claim is read: it returns success exactly when the phase read is Bound, and for every
  other phase the same not-ready error, which carries the claim's name and the two phases.
  \<^verbatim>\<open>ValidatePersistentVolumeClaim\<close> hands this predicate to the retry with a timeout of
  five minutes and an interval of ten seconds, and returns what the retry returns.
\<close>

theorem C5_claim_bound:
  assumes "GetK8sClient api w = ((client, None), w1)"
    and "api_call (PersistentVolumeClaims_Get api (pvc_Namespace pvc) (pvc_Name pvc))
            (Call_PersistentVolumeClaims_Get (pvc_Namespace pvc) (pvc_Name pvc)) w1 = (Inr result, w2)"
  shows "(fst (ValidatePersistentVolumeClaim_t api pvc w) = Return None \<longleftrightarrow> pvc_Phase result = ClaimBound)
       \<and> (pvc_Phase result \<noteq> ClaimBound \<longrightarrow>
            ValidatePersistentVolumeClaim_t api pvc w =
              (Return (Some (ErrPVCNotReady (pvc_Name result)
                 (Sprintf ''PVC expected status: %v PVC actual status: %v''
                    [V_string ClaimBound, V_string (pvc_Phase result)]))), w2))
       \<and> ValidatePersistentVolumeClaim DoRetryWithTimeout api pvc w
            = DoRetryWithTimeout (ValidatePersistentVolumeClaim_t api pvc) (5 * Minute) (10 * Second) w"
  using assms
  by (simp add: ValidatePersistentVolumeClaim_t_def ValidatePersistentVolumeClaim_def)

theorem C5_claim_bound_witness:
  "pvc_Phase data \<noteq> ClaimBound
   \<and> fst (ValidatePersistentVolumeClaim_t (scripted_api claim_lost) data (0, []))
        = Return (Some (ErrPVCNotReady ''data''
            (Sprintf ''PVC expected status: %v PVC actual status: %v''
               [V_string ''Bound'', V_string ''Lost''])))"
proof -
  let ?api = "scripted_api claim_lost"
  let ?w1 = "snd (GetK8sClient ?api (0, []))"
  let ?w2 = "snd (api_call (PersistentVolumeClaims_Get ?api (pvc_Namespace data) (pvc_Name data))
                   (Call_PersistentVolumeClaims_Get (pvc_Namespace data) (pvc_Name data)) ?w1)"
  have h1: "GetK8sClient ?api (0, []) = ((Some Clientset, None), ?w1)"
    by (simp add: run_simps claim_lost_def)
  have h2: "api_call (PersistentVolumeClaims_Get ?api (pvc_Namespace data) (pvc_Name data))
              (Call_PersistentVolumeClaims_Get (pvc_Namespace data) (pvc_Name data)) ?w1
            = (Inr data, ?w2)"
    by (simp add: run_simps claim_lost_def)
  have lost: "pvc_Phase data \<noteq> ClaimBound"
    by (simp add: data_def ClaimBound_def)
  from C5_claim_bound [OF h1 h2] lost show ?thesis
    by (simp add: data_def ClaimBound_def)
qed

lemma IsNodeReady_loop_find:
  "IsNodeReady_loop name conditions
     = map_option (\<lambda>c. Errorf (Sprintf ''node: %v is not ready as condition: %v (%v) is %v. Reason: %v''
                    [V_string name, V_string (cond_Type c), V_string (cond_Message c),
                     V_string (cond_Status c), V_string (cond_Reason c)])) (find spec_condition_violated conditions)"
  by (induction conditions)
     (auto simp: spec_condition_violated_def spec_negative_conditions_def NodeReady_def
        NodeOutOfDisk_def NodeMemoryPressure_def NodeDiskPressure_def
        NodeNetworkUnavailable_def NodeInodePressure_def)

text \<open>
  C6. \<^verbatim>\<open>IsNodeReady\<close>, once the client is obtained and the node is read: the node is
  read once and nothing is called after that read. When a condition of the node's list is
  violated, the result is the error whose format is applied to the node's name and to the
  type, message, status and reason of the first violated condition; when no condition of
  the list is violated the result is nil. A condition that is not in the list plays no
  part.
\<close>

theorem C6_node_ready:
  assumes "GetK8sClient api w = ((client, None), w1)"
    and "api_call (Nodes_Get api name) (Call_Nodes_Get name) w1 = (Inr node, w2)"
  shows "IsNodeReady api name w
           = (Return (map_option (\<lambda>c. Errorf (Sprintf ''node: %v is not ready as condition: %v (%v) is %v. Reason: %v''
                    [V_string name, V_string (cond_Type c), V_string (cond_Message c),
                     V_string (cond_Status c), V_string (cond_Reason c)]))
                (find spec_condition_violated (Conditions node))), w2)
       \<and> snd w2 = snd w1 @ [Call_Nodes_Get name (Inr node)]
       \<and> ((\<exists>c\<in>set (Conditions node). spec_condition_violated c) \<longrightarrow>
            (\<exists>c\<in>set (Conditions node). spec_condition_violated c
               \<and> fst (IsNodeReady api name w) = Return (Some (Errorf (Sprintf ''node: %v is not ready as condition: %v (%v) is %v. Reason: %v''
                    [V_string name, V_string (cond_Type c), V_string (cond_Message c),
                     V_string (cond_Status c), V_string (cond_Reason c)])))))
       \<and> ((\<forall>c\<in>set (Conditions node). \<not> spec_condition_violated c) \<longrightarrow>
            fst (IsNodeReady api name w) = Return None)"
proof -
  have r: "IsNodeReady api name w
           = (Return (map_option (\<lambda>c. Errorf (Sprintf ''node: %v is not ready as condition: %v (%v) is %v. Reason: %v''
                    [V_string name, V_string (cond_Type c), V_string (cond_Message c),
                     V_string (cond_Status c), V_string (cond_Reason c)]))
                (find spec_condition_violated (Conditions node))), w2)"
    using assms by (simp add: IsNodeReady_def GetNodeByName_def IsNodeReady_loop_find)
  have l: "snd w2 = snd w1 @ [Call_Nodes_Get name (Inr node)]"
    using assms(2) by (auto simp: api_call_def split: prod.splits)
  have v: "\<exists>c\<in>set (Conditions node). spec_condition_violated c
               \<and> fst (IsNodeReady api name w) = Return (Some (Errorf (Sprintf ''node: %v is not ready as condition: %v (%v) is %v. Reason: %v''
                    [V_string name, V_string (cond_Type c), V_string (cond_Message c),
                     V_string (cond_Status c), V_string (cond_Reason c)])))"
    if "\<exists>c\<in>set (Conditions node). spec_condition_violated c"
  proof -
    from that obtain c where c: "find spec_condition_violated (Conditions node) = Some c"
      by (cases "find spec_condition_violated (Conditions node)") (auto simp: find_None_iff)
    then have "c \<in> set (Conditions node)" "spec_condition_violated c"
      by (auto simp: find_Some_iff)
    moreover have "fst (IsNodeReady api name w) = Return (Some (Errorf (Sprintf ''node: %v is not ready as condition: %v (%v) is %v. Reason: %v''
                    [V_string name, V_string (cond_Type c), V_string (cond_Message c),
                     V_string (cond_Status c), V_string (cond_Reason c)])))"
      by (simp add: r c)
    ultimately show ?thesis by blast
  qed
  have n: "fst (IsNodeReady api name w) = Return None"
    if "\<forall>c\<in>set (Conditions node). \<not> spec_condition_violated c"
  proof -
    from that have "find spec_condition_violated (Conditions node) = None"
      by (simp add: find_None_iff)
    then show ?thesis using r by simp
  qed
  from r l v n show ?thesis by blast
qed

theorem C6_node_ready_witness:
  "spec_condition_violated not_ready
   \<and> fst (IsNodeReady (scripted_api conflict) ''node1'' (0, []))
        = Return (Some (Errorf (Sprintf ''node: %v is not ready as condition: %v (%v) is %v. Reason: %v''
            [V_string ''node1'', V_string ''Ready'', V_string ''kubelet stopped posting node status'',
             V_string ''False'', V_string ''NodeStatusUnknown''])))
   \<and> fst (IsNodeReady (scripted_api conflict) ''node2'' (0, [])) = Return None"
proof -
  let ?api = "scripted_api conflict"
  let ?w1 = "snd (GetK8sClient ?api (0, []))"
  have h1: "GetK8sClient ?api (0, []) = ((Some Clientset, None), ?w1)"
    by (simp add: run_simps conflict_def)
  have n1: "api_call (Nodes_Get ?api ''node1'') (Call_Nodes_Get ''node1'') ?w1
            = (Inr node1, snd (api_call (Nodes_Get ?api ''node1'') (Call_Nodes_Get ''node1'') ?w1))"
    by (simp add: run_simps conflict_def)
  have n2: "api_call (Nodes_Get ?api ''node2'') (Call_Nodes_Get ''node2'') ?w1
            = (Inr node2, snd (api_call (Nodes_Get ?api ''node2'') (Call_Nodes_Get ''node2'') ?w1))"
    by (simp add: run_simps conflict_def)
  have v: "spec_condition_violated not_ready"
    by (simp add: spec_condition_violated_def not_ready_def NodeReady_def ConditionTrue_def)
  have c1: "Conditions node1 = [not_ready]"
    by (simp add: node1_def)
  have ok: "\<forall>c\<in>set (Conditions node2). \<not> spec_condition_violated c"
    by (simp add: node2_def spec_condition_violated_def spec_negative_conditions_def
          NodeReady_def NodeOutOfDisk_def NodeMemoryPressure_def NodeDiskPressure_def
          NodeNetworkUnavailable_def NodeInodePressure_def ConditionTrue_def ConditionFalse_def)
  have a: "fst (IsNodeReady ?api ''node1'' (0, []))
        = Return (Some (Errorf (Sprintf ''node: %v is not ready as condition: %v (%v) is %v. Reason: %v''
            [V_string ''node1'', V_string ''Ready'', V_string ''kubelet stopped posting node status'',
             V_string ''False'', V_string ''NodeStatusUnknown''])))"
    using C6_node_ready [OF h1 n1] v by (simp add: c1) (simp add: not_ready_def)
  have b: "fst (IsNodeReady ?api ''node2'' (0, [])) = Return None"
    using C6_node_ready [OF h1 n2] ok by blast
  from v a b show ?thesis by blast
qed

subsection \<open>Resolving the pods of a deployment\<close>

text \<open>
  C7. \<^verbatim>\<open>GetDeploymentPods\<close>, once the client is obtained and the replica sets of the
  deployment's namespace are listed. When no listed replica set has an owner reference
  with the deployment's name, the result is a nil slice and a nil error, and no pod is
  listed. Otherwise the result is that of \<^verbatim>\<open>GetReplicaSetPods\<close> on the first such
  replica set: when that lists the pods, the result holds exactly the listed pods with an
  owner reference that carries the replica set's name, in the order of the listing, once
  per such reference.
\<close>

theorem C7_two_hop_lookup:
  assumes "GetK8sClient api w = ((client, None), w1)"
    and "api_call (ReplicaSets_List api (dep_Namespace deployment))
           (Call_ReplicaSets_List (dep_Namespace deployment)) w1 = (Inr rSets, w2)"
  shows "((\<forall>rSet\<in>set rSets. \<forall>owner\<in>set (rs_OwnerReferences rSet).
             owner_Name owner \<noteq> dep_Name deployment)
          \<longrightarrow> GetDeploymentPods api deployment w = ((None, None), w2))
       \<and> (find (\<lambda>rSet. \<exists>owner\<in>set (rs_OwnerReferences rSet). owner_Name owner = dep_Name deployment) rSets
            = Some rSet
          \<longrightarrow> GetDeploymentPods api deployment w = GetReplicaSetPods api rSet w2
              \<and> (GetK8sClient api w2 = ((client2, None), w3)
                 \<and> api_call (Pods_List api (rs_Namespace rSet)) (Call_Pods_List (rs_Namespace rSet)) w3
                     = (Inr pods, w4)
                 \<longrightarrow> (\<exists>result. GetDeploymentPods api deployment w = ((result, None), w4)
                        \<and> slice_elems result =
                            concat (map (\<lambda>pod. replicate (length (filter (\<lambda>owner. owner_Name owner = rs_Name rSet)
                                                    (pod_OwnerReferences pod))) pod) pods)
                        \<and> set (slice_elems result) =
                            {pod \<in> set pods. \<exists>owner\<in>set (pod_OwnerReferences pod).
                               owner_Name owner = rs_Name rSet})))"
proof -
  let ?owned = "\<lambda>rSet. \<exists>owner\<in>set (rs_OwnerReferences rSet). owner_Name owner = dep_Name deployment"
  have loop: "GetDeploymentPods api deployment w = GetDeploymentPods_loop api deployment rSets w2"
    using assms by (simp add: GetDeploymentPods_def)
  have none: "GetDeploymentPods api deployment w = ((None, None), w2)"
    if "\<forall>rSet\<in>set rSets. \<forall>owner\<in>set (rs_OwnerReferences rSet). owner_Name owner \<noteq> dep_Name deployment"
  proof -
    from that have "find ?owned rSets = None" by (auto simp: find_None_iff)
    then show ?thesis by (simp add: loop GetDeploymentPods_loop_find)
  qed
  have some: "GetDeploymentPods api deployment w = GetReplicaSetPods api rSet w2"
    if "find ?owned rSets = Some rSet"
    using that by (simp add: loop GetDeploymentPods_loop_find)
  have hop: "\<exists>result. GetReplicaSetPods api rSet w2 = ((result, None), w4)
                        \<and> slice_elems result =
                            concat (map (\<lambda>pod. replicate (length (filter (\<lambda>owner. owner_Name owner = rs_Name rSet)
                                                    (pod_OwnerReferences pod))) pod) pods)
                        \<and> set (slice_elems result) =
                            {pod \<in> set pods. \<exists>owner\<in>set (pod_OwnerReferences pod).
                               owner_Name owner = rs_Name rSet}"
    if "GetK8sClient api w2 = ((client2, None), w3)"
      and "api_call (Pods_List api (rs_Namespace rSet)) (Call_Pods_List (rs_Namespace rSet)) w3
                     = (Inr pods, w4)"
  proof -
    have "GetReplicaSetPods api rSet w2 = ((GetReplicaSetPods_loop rSet pods None, None), w4)"
      using that by (simp add: GetReplicaSetPods_def)
    moreover have "slice_elems (GetReplicaSetPods_loop rSet pods None) =
                            concat (map (\<lambda>pod. replicate (length (filter (\<lambda>owner. owner_Name owner = rs_Name rSet)
                                                    (pod_OwnerReferences pod))) pod) pods)"
      by (simp add: GetReplicaSetPods_loop_elems slice_elems_simps)
    moreover have "set (concat (map (\<lambda>pod. replicate (length (filter (\<lambda>owner. owner_Name owner = rs_Name rSet)
                                                    (pod_OwnerReferences pod))) pod) pods))
                   = {pod \<in> set pods. \<exists>owner\<in>set (pod_OwnerReferences pod).
                               owner_Name owner = rs_Name rSet}"
      by (auto simp: filter_empty_conv)
    ultimately show ?thesis by simp
  qed
  from none some hop show ?thesis by simp
qed

theorem C7_two_hop_lookup_witness:
  "fst (GetDeploymentPods (scripted_api no_owned_rs) db (0, [])) = (None, None)
   \<and> slice_elems (fst (fst (GetDeploymentPods (scripted_api db_running) db (0, [])))) = [db_pod]"
proof -
  let ?api = "scripted_api no_owned_rs"
  let ?w1 = "snd (GetK8sClient ?api (0, []))"
  let ?w2 = "snd (api_call (ReplicaSets_List ?api (dep_Namespace db))
                   (Call_ReplicaSets_List (dep_Namespace db)) ?w1)"
  have h1: "GetK8sClient ?api (0, []) = ((Some Clientset, None), ?w1)"
    by (simp add: run_simps no_owned_rs_def db_running_def)
  have h2: "api_call (ReplicaSets_List ?api (dep_Namespace db))
              (Call_ReplicaSets_List (dep_Namespace db)) ?w1 = (Inr [other_rs], ?w2)"
    by (simp add: run_simps no_owned_rs_def db_running_def)
  have none: "\<forall>rSet\<in>set [other_rs]. \<forall>owner\<in>set (rs_OwnerReferences rSet).
                 owner_Name owner \<noteq> dep_Name db"
    by (simp add: other_rs_def db_def)
  have a: "fst (GetDeploymentPods ?api db (0, [])) = (None, None)"
    using C7_two_hop_lookup [OF h1 h2, THEN conjunct1, THEN mp, OF none] by simp
  let ?up = "scripted_api db_running"
  let ?u1 = "snd (GetK8sClient ?up (0, []))"
  let ?u2 = "snd (api_call (ReplicaSets_List ?up (dep_Namespace db))
                   (Call_ReplicaSets_List (dep_Namespace db)) ?u1)"
  let ?u3 = "snd (GetK8sClient ?up ?u2)"
  let ?u4 = "snd (api_call (Pods_List ?up (rs_Namespace db_rs)) (Call_Pods_List (rs_Namespace db_rs)) ?u3)"
  have u1: "GetK8sClient ?up (0, []) = ((Some Clientset, None), ?u1)"
    by (simp add: run_simps db_running_def)
  have u2: "api_call (ReplicaSets_List ?up (dep_Namespace db))
              (Call_ReplicaSets_List (dep_Namespace db)) ?u1 = (Inr [web_rs, db_rs], ?u2)"
    by (simp add: run_simps db_running_def)
  have found: "find (\<lambda>rSet. \<exists>owner\<in>set (rs_OwnerReferences rSet). owner_Name owner = dep_Name db)
                 [web_rs, db_rs] = Some db_rs"
    by (simp add: web_rs_def db_rs_def db_def)
  have u3: "GetK8sClient ?up ?u2 = ((Some Clientset, None), ?u3)"
    by (simp add: run_simps db_running_def)
  have u4: "api_call (Pods_List ?up (rs_Namespace db_rs)) (Call_Pods_List (rs_Namespace db_rs)) ?u3
            = (Inr [db_pod], ?u4)"
    by (simp add: run_simps db_running_def)
  have owned: "filter (\<lambda>owner. owner_Name owner = rs_Name db_rs) (pod_OwnerReferences db_pod)
                 = [\<lparr>owner_Name = ''db-7c9''\<rparr>]"
    by (simp add: db_rs_def db_pod_def)
  from C7_two_hop_lookup [OF u1 u2, THEN conjunct2, THEN mp, OF found, THEN conjunct2, THEN mp,
         OF conjI [OF u3 u4]]
  obtain result where r: "GetDeploymentPods ?up db (0, []) = ((result, None), ?u4)"
    and e: "slice_elems result =
              concat (map (\<lambda>pod. replicate (length (filter (\<lambda>owner. owner_Name owner = rs_Name db_rs)
                                                    (pod_OwnerReferences pod))) pod) [db_pod])"
    by blast
  have b: "slice_elems (fst (fst (GetDeploymentPods ?up db (0, [])))) = [db_pod]"
    unfolding r using e owned by simp
  from a b show ?thesis by blast
qed

subsection \<open>Label updates\<close>

lemma api_call_log: "api_call f ev w = (r, w') \<Longrightarrow> snd w' = snd w @ [ev r]"
  by (auto simp: api_call_def split: prod.splits)

lemma AddLabelOnNode_loop_exit:
  "\<not> retryCnt < k8sLabelUpdateMaxRetries \<Longrightarrow>
   AddLabelOnNode_loop api name key val err retryCnt w = (Return err, w)"
  by (simp add: AddLabelOnNode_loop.simps)

lemma AddLabelOnNode_loop_step:
  assumes "retryCnt < k8sLabelUpdateMaxRetries"
    and "api_call (Nodes_Get api name) (Call_Nodes_Get name) w = (r, w1)"
  shows "r = Inl msg \<Longrightarrow>
           AddLabelOnNode_loop api name key val err retryCnt w = (Return (Some (ApiError msg)), w1)"
    and "r = Inr node \<Longrightarrow> Labels node = Some labels \<Longrightarrow> labels key = Some val \<Longrightarrow>
           AddLabelOnNode_loop api name key val err retryCnt w = (Return None, w1)"
    and "r = Inr node \<Longrightarrow> Labels node = None \<Longrightarrow>
           AddLabelOnNode_loop api name key val err retryCnt w = (Panic, w1)"
    and "r = Inr node \<Longrightarrow> Labels node = Some labels \<Longrightarrow> labels key \<noteq> Some val \<Longrightarrow>
         api_call (Nodes_Update api (node\<lparr>Labels := Some (labels(key \<mapsto> val))\<rparr>))
           (Call_Nodes_Update (node\<lparr>Labels := Some (labels(key \<mapsto> val))\<rparr>)) w1 = (Inr updated, w2) \<Longrightarrow>
           AddLabelOnNode_loop api name key val err retryCnt w = (Return None, w2)"
    and "r = Inr node \<Longrightarrow> Labels node = Some labels \<Longrightarrow> labels key \<noteq> Some val \<Longrightarrow>
         api_call (Nodes_Update api (node\<lparr>Labels := Some (labels(key \<mapsto> val))\<rparr>))
           (Call_Nodes_Update (node\<lparr>Labels := Some (labels(key \<mapsto> val))\<rparr>)) w1 = (Inl msg, w2) \<Longrightarrow>
           AddLabelOnNode_loop api name key val err retryCnt w
             = AddLabelOnNode_loop api name key val err (retryCnt + 1) w2"
  using assms
  by (auto simp: AddLabelOnNode_loop.simps [of api name key val err retryCnt w]
      map_index_def map_assign_def split: option.splits)

lemma AddLabelOnNode_loop_exec:
  "\<exists>attempts.
      snd (snd (AddLabelOnNode_loop api name key val err n w)) = snd w @ concat attempts
    \<and> AddLabel_exec name key val err (k8sLabelUpdateMaxRetries - n)
         (fst (AddLabelOnNode_loop api name key val err n w)) attempts"
proof (induction k \<equiv> "k8sLabelUpdateMaxRetries - n" arbitrary: n w)
  case 0
  then have "AddLabelOnNode_loop api name key val err n w = (Return err, w)"
    by (simp add: AddLabelOnNode_loop_exit)
  then have "snd (snd (AddLabelOnNode_loop api name key val err n w)) = snd w @ concat []
    \<and> AddLabel_exec name key val err (k8sLabelUpdateMaxRetries - n)
         (fst (AddLabelOnNode_loop api name key val err n w)) []"
    by (simp add: AddLabel_exec_def)
  then show ?case by blast
next
  case (Suc k)
  let ?res = "AddLabelOnNode_loop api name key val err n w"
  from Suc.hyps(2) have lt: "n < k8sLabelUpdateMaxRetries" and k: "k = k8sLabelUpdateMaxRetries - (n + 1)"
    by simp_all
  obtain r w1 where get: "api_call (Nodes_Get api name) (Call_Nodes_Get name) w = (r, w1)"
    by (cases "api_call (Nodes_Get api name) (Call_Nodes_Get name) w")
  have log1: "snd w1 = snd w @ [Call_Nodes_Get name r]"
    by (rule api_call_log [OF get])
  note step = AddLabelOnNode_loop_step [OF lt get]
  have one: "\<exists>attempts. snd (snd ?res) = snd w @ concat attempts
               \<and> AddLabel_exec name key val err (k8sLabelUpdateMaxRetries - n) (fst ?res) attempts"
    if "?res = (x, w1)" "\<forall>msg. r = Inl msg \<longrightarrow> x = Return (Some (ApiError msg))"
       "\<forall>node. r = Inr node \<longrightarrow> x = Return None \<or> x = Panic" for x
  proof -
    have "snd (snd ?res) = snd w @ concat [[Call_Nodes_Get name r]]"
      using that(1) log1 by simp
    moreover have "AddLabel_exec name key val err (k8sLabelUpdateMaxRetries - n) (fst ?res)
        [[Call_Nodes_Get name r]]"
      unfolding that(1) using that(2,3) lt
      by (cases r) (auto simp: AddLabel_exec_def spec_AddLabel_attempt_def)
    ultimately show ?thesis by blast
  qed
  show ?case
  proof (cases r)
    case (Inl msg)
    show ?thesis
      by (rule one [OF step(1) [OF Inl]]) (simp_all add: Inl)
  next
    case (Inr node)
    show ?thesis
    proof (cases "Labels node")
      case None
      show ?thesis
        by (rule one [OF step(3) [OF Inr None]]) (simp_all add: Inr)
    next
      case (Some labels)
      show ?thesis
      proof (cases "labels key = Some val")
        case True
        show ?thesis
          by (rule one [OF step(2) [OF Inr Some True]]) (simp_all add: Inr)
      next
        case False
        let ?node = "node\<lparr>Labels := Some (labels(key \<mapsto> val))\<rparr>"
        obtain u w2 where upd: "api_call (Nodes_Update api ?node) (Call_Nodes_Update ?node) w1 = (u, w2)"
          by (cases "api_call (Nodes_Update api ?node) (Call_Nodes_Update ?node) w1")
        have log2: "snd w2 = snd w @ [Call_Nodes_Get name (Inr node), Call_Nodes_Update ?node u]"
          using api_call_log [OF upd] log1 Inr by simp
        have att: "spec_AddLabel_attempt name key val
                     [Call_Nodes_Get name (Inr node), Call_Nodes_Update ?node u]"
          using Some by (auto simp: spec_AddLabel_attempt_def)
        show ?thesis
        proof (cases u)
          case (Inr updated)
          have res: "?res = (Return None, w2)"
            using step(4) [OF \<open>r = Inr node\<close> Some False] upd Inr by simp
          have "snd (snd ?res) = snd w @ concat [[Call_Nodes_Get name (Inr node), Call_Nodes_Update ?node u]]"
            using res log2 by simp
          moreover have "AddLabel_exec name key val err (k8sLabelUpdateMaxRetries - n) (fst ?res)
              [[Call_Nodes_Get name (Inr node), Call_Nodes_Update ?node u]]"
            using att lt by (simp add: AddLabel_exec_def res Inr)
          ultimately show ?thesis by blast
        next
          case (Inl msg)
          have res: "?res = AddLabelOnNode_loop api name key val err (n + 1) w2"
            using step(5) [OF \<open>r = Inr node\<close> Some False] upd Inl by simp
          from Suc.hyps(1) [OF k, of w2] obtain attempts where
            l: "snd (snd (AddLabelOnNode_loop api name key val err (n + 1) w2)) = snd w2 @ concat attempts"
            and e: "AddLabel_exec name key val err (k8sLabelUpdateMaxRetries - (n + 1))
                      (fst (AddLabelOnNode_loop api name key val err (n + 1) w2)) attempts"
            by blast
          let ?a = "[Call_Nodes_Get name (Inr node), Call_Nodes_Update ?node u]"
          have "snd (snd ?res) = snd w @ concat (?a # attempts)"
            using res l log2 by simp
          moreover have "AddLabel_exec name key val err (k8sLabelUpdateMaxRetries - n) (fst ?res)
              (?a # attempts)"
            using e att lt unfolding AddLabel_exec_def res
            by (auto simp: Inl)
          ultimately show ?thesis by blast
        qed
      qed
    qed
  qed
qed

lemma map_index_present:
  "snd (map_index m k) \<longleftrightarrow> (\<exists>f. m = Some f \<and> f k \<noteq> None)"
  by (auto simp: map_index_def split: option.splits)

lemma RemoveLabelOnNode_loop_exit:
  "\<not> retryCnt < k8sLabelUpdateMaxRetries \<Longrightarrow>
   RemoveLabelOnNode_loop api name key err retryCnt w = (Return err, w)"
  by (simp add: RemoveLabelOnNode_loop.simps)

lemma RemoveLabelOnNode_loop_step:
  assumes "retryCnt < k8sLabelUpdateMaxRetries"
    and "api_call (Nodes_Get api name) (Call_Nodes_Get name) w = (r, w1)"
  shows "r = Inl msg \<Longrightarrow>
           RemoveLabelOnNode_loop api name key err retryCnt w = (Return (Some (ApiError msg)), w1)"
    and "r = Inr node \<Longrightarrow> spec_key_absent node key \<Longrightarrow>
           RemoveLabelOnNode_loop api name key err retryCnt w
             = RemoveLabelOnNode_loop api name key err (retryCnt + 1) w1"
    and "r = Inr node \<Longrightarrow> Labels node = Some labels \<Longrightarrow> labels key \<noteq> None \<Longrightarrow>
         api_call (Nodes_Update api (node\<lparr>Labels := Some (labels(key := None))\<rparr>))
           (Call_Nodes_Update (node\<lparr>Labels := Some (labels(key := None))\<rparr>)) w1 = (Inr updated, w2) \<Longrightarrow>
           RemoveLabelOnNode_loop api name key err retryCnt w = (Return None, w2)"
    and "r = Inr node \<Longrightarrow> Labels node = Some labels \<Longrightarrow> labels key \<noteq> None \<Longrightarrow>
         api_call (Nodes_Update api (node\<lparr>Labels := Some (labels(key := None))\<rparr>))
           (Call_Nodes_Update (node\<lparr>Labels := Some (labels(key := None))\<rparr>)) w1 = (Inl msg, w2) \<Longrightarrow>
           RemoveLabelOnNode_loop api name key err retryCnt w
             = RemoveLabelOnNode_loop api name key err (retryCnt + 1) w2"
  using assms
  by (auto simp: RemoveLabelOnNode_loop.simps [of api name key err retryCnt w]
      map_index_present map_delete_def spec_key_absent_def)

lemma RemoveLabel_failed_updates:
  "\<forall>a\<in>set attempts. spec_RemoveLabel_attempt name key a \<Longrightarrow>
   length (filter failed_update (concat attempts)) \<le> length attempts"
proof (induction attempts)
  case Nil
  show ?case by simp
next
  case (Cons a attempts)
  then have "length (filter failed_update a) \<le> 1"
    by (auto simp: spec_RemoveLabel_attempt_def)
  with Cons show ?case by simp
qed

lemma RemoveLabelOnNode_loop_exec:
  "\<exists>attempts.
      snd (snd (RemoveLabelOnNode_loop api name key err n w)) = snd w @ concat attempts
    \<and> RemoveLabel_exec name key err (k8sLabelUpdateMaxRetries - n)
         (fst (RemoveLabelOnNode_loop api name key err n w)) attempts"
proof (induction k \<equiv> "k8sLabelUpdateMaxRetries - n" arbitrary: n w)
  case 0
  then have "RemoveLabelOnNode_loop api name key err n w = (Return err, w)"
    by (simp add: RemoveLabelOnNode_loop_exit)
  then have "snd (snd (RemoveLabelOnNode_loop api name key err n w)) = snd w @ concat []
    \<and> RemoveLabel_exec name key err (k8sLabelUpdateMaxRetries - n)
         (fst (RemoveLabelOnNode_loop api name key err n w)) []"
    using 0 by (simp add: RemoveLabel_exec_def)
  then show ?case by blast
next
  case (Suc k)
  let ?res = "RemoveLabelOnNode_loop api name key err n w"
  from Suc.hyps(2) have lt: "n < k8sLabelUpdateMaxRetries" and k: "k = k8sLabelUpdateMaxRetries - (n + 1)"
    by simp_all
  obtain r w1 where get: "api_call (Nodes_Get api name) (Call_Nodes_Get name) w = (r, w1)"
    by (cases "api_call (Nodes_Get api name) (Call_Nodes_Get name) w")
  have log1: "snd w1 = snd w @ [Call_Nodes_Get name r]"
    by (rule api_call_log [OF get])
  note step = RemoveLabelOnNode_loop_step [OF lt get]
  have again: "\<exists>attempts. snd (snd ?res) = snd w @ concat attempts
               \<and> RemoveLabel_exec name key err (k8sLabelUpdateMaxRetries - n) (fst ?res) attempts"
    if res: "?res = RemoveLabelOnNode_loop api name key err (n + 1) w'"
      and log: "snd w' = snd w @ a"
      and att: "spec_RemoveLabel_attempt name key a"
      and upd: "length (filter failed_update a) \<le> 1"
      and absent: "(\<forall>r. Call_Nodes_Get name r \<in> set a \<longrightarrow> (\<exists>node. r = Inr node \<and> spec_key_absent node key))
                    \<longrightarrow> filter is_update a = []"
    for w' a
  proof -
    from Suc.hyps(1) [OF k, of w'] obtain attempts where
      l: "snd (snd (RemoveLabelOnNode_loop api name key err (n + 1) w')) = snd w' @ concat attempts"
      and e: "RemoveLabel_exec name key err (k8sLabelUpdateMaxRetries - (n + 1))
                (fst (RemoveLabelOnNode_loop api name key err (n + 1) w')) attempts"
      by blast
    have a_ne: "a \<noteq> []"
      using att by (auto simp: spec_RemoveLabel_attempt_def)
    have cnt: "length (filter failed_update (concat attempts)) \<le> k8sLabelUpdateMaxRetries - (n + 1)"
      using e RemoveLabel_failed_updates [of attempts name key]
      by (simp add: RemoveLabel_exec_def)
    have "snd (snd ?res) = snd w @ concat (a # attempts)"
      using res l log by simp
    moreover have "RemoveLabel_exec name key err (k8sLabelUpdateMaxRetries - n) (fst ?res)
        (a # attempts)"
      unfolding RemoveLabel_exec_def res
    proof (intro conjI)
      let ?r' = "fst (RemoveLabelOnNode_loop api name key err (n + 1) w')"
      let ?k' = "k8sLabelUpdateMaxRetries - (n + 1)"
      from e have e1: "length attempts \<le> ?k'"
        and e2: "\<forall>a\<in>set attempts. spec_RemoveLabel_attempt name key a"
        and e3: "\<forall>e. ?r' = Return (Some e) \<longrightarrow>
           err = Some e
           \<or> (\<exists>msg. e = ApiError msg \<and> concat attempts \<noteq> []
                 \<and> last (concat attempts) = Call_Nodes_Get name (Inl msg))"
        and e4: "length (filter failed_update (concat attempts)) = ?k' \<longrightarrow> ?r' = Return err"
        and e5: "(\<forall>r. Call_Nodes_Get name r \<in> set (concat attempts) \<longrightarrow>
              (\<exists>node. r = Inr node \<and> spec_key_absent node key))
           \<longrightarrow> ?r' = Return err \<and> filter is_update (concat attempts) = [] \<and> length attempts = ?k'"
        and e6: "?r' \<noteq> Panic"
        unfolding RemoveLabel_exec_def by blast+
      show "length (a # attempts) \<le> k8sLabelUpdateMaxRetries - n"
        using e1 lt by simp
      show "\<forall>a\<in>set (a # attempts). spec_RemoveLabel_attempt name key a"
        using e2 att by simp
      show "\<forall>e. ?r' = Return (Some e) \<longrightarrow>
           err = Some e
           \<or> (\<exists>msg. e = ApiError msg \<and> concat (a # attempts) \<noteq> []
                 \<and> last (concat (a # attempts)) = Call_Nodes_Get name (Inl msg))"
      proof (intro allI impI)
        fix e
        assume "?r' = Return (Some e)"
        with e3 consider "err = Some e"
          | msg where "e = ApiError msg" "concat attempts \<noteq> []"
              "last (concat attempts) = Call_Nodes_Get name (Inl msg)"
          by blast
        then show "err = Some e
           \<or> (\<exists>msg. e = ApiError msg \<and> concat (a # attempts) \<noteq> []
                 \<and> last (concat (a # attempts)) = Call_Nodes_Get name (Inl msg))"
        proof cases
          case 1
          then show ?thesis by simp
        next
          case 2
          then have "concat (a # attempts) \<noteq> []"
            "last (concat (a # attempts)) = Call_Nodes_Get name (Inl msg)"
            by (simp_all add: last_append del: concat_eq_Nil_conv)
          with 2(1) show ?thesis by blast
        qed
      qed
      show "length (filter failed_update (concat (a # attempts))) = k8sLabelUpdateMaxRetries - n
              \<longrightarrow> ?r' = Return err"
      proof
        assume "length (filter failed_update (concat (a # attempts))) = k8sLabelUpdateMaxRetries - n"
        then have "length (filter failed_update (concat attempts)) = ?k'"
          using upd cnt lt by simp
        with e4 show "?r' = Return err" by blast
      qed
      show "(\<forall>r. Call_Nodes_Get name r \<in> set (concat (a # attempts)) \<longrightarrow>
              (\<exists>node. r = Inr node \<and> spec_key_absent node key))
         \<longrightarrow> ?r' = Return err \<and> filter is_update (concat (a # attempts)) = []
              \<and> length (a # attempts) = k8sLabelUpdateMaxRetries - n"
      proof
        assume h: "\<forall>r. Call_Nodes_Get name r \<in> set (concat (a # attempts)) \<longrightarrow>
              (\<exists>node. r = Inr node \<and> spec_key_absent node key)"
        then have "filter is_update a = []"
          using absent by simp
        moreover from h e5 have "?r' = Return err" "filter is_update (concat attempts) = []"
            "length attempts = ?k'"
          by simp_all
        ultimately show "?r' = Return err \<and> filter is_update (concat (a # attempts)) = []
              \<and> length (a # attempts) = k8sLabelUpdateMaxRetries - n"
          using lt by simp
      qed
      show "?r' \<noteq> Panic"
        by (rule e6)
    qed
    ultimately show ?thesis by blast
  qed
  show ?case
  proof (cases r)
    case (Inl msg)
    have res: "?res = (Return (Some (ApiError msg)), w1)"
      by (rule step(1) [OF Inl])
    have "snd (snd ?res) = snd w @ concat [[Call_Nodes_Get name r]]"
      using res log1 by simp
    moreover have "RemoveLabel_exec name key err (k8sLabelUpdateMaxRetries - n) (fst ?res)
        [[Call_Nodes_Get name r]]"
      unfolding res using lt
      by (auto simp: RemoveLabel_exec_def spec_RemoveLabel_attempt_def Inl)
    ultimately show ?thesis by blast
  next
    case (Inr node)
    show ?thesis
    proof (cases "spec_key_absent node key")
      case True
      show ?thesis
      proof (rule again [OF step(2) [OF Inr True] log1])
        show "spec_RemoveLabel_attempt name key [Call_Nodes_Get name r]"
          by (simp add: spec_RemoveLabel_attempt_def)
      qed simp_all
    next
      case False
      then obtain labels where labels: "Labels node = Some labels" "labels key \<noteq> None"
        by (auto simp: spec_key_absent_def)
      let ?node = "node\<lparr>Labels := Some (labels(key := None))\<rparr>"
      obtain u w2 where upd: "api_call (Nodes_Update api ?node) (Call_Nodes_Update ?node) w1 = (u, w2)"
        by (cases "api_call (Nodes_Update api ?node) (Call_Nodes_Update ?node) w1")
      let ?a = "[Call_Nodes_Get name (Inr node), Call_Nodes_Update ?node u]"
      have log2: "snd w2 = snd w @ ?a"
        using api_call_log [OF upd] log1 Inr by simp
      have att: "spec_RemoveLabel_attempt name key ?a"
        using labels by (auto simp: spec_RemoveLabel_attempt_def)
      show ?thesis
      proof (cases u)
        case (Inr updated)
        have res: "?res = (Return None, w2)"
          using step(3) [OF \<open>r = Inr node\<close> labels] upd Inr by simp
        have "snd (snd ?res) = snd w @ concat [?a]"
          using res log2 by simp
        moreover have "RemoveLabel_exec name key err (k8sLabelUpdateMaxRetries - n) (fst ?res) [?a]"
          unfolding res using att lt False
          by (auto simp: RemoveLabel_exec_def Inr)
        ultimately show ?thesis by blast
      next
        case (Inl msg)
        have res: "?res = RemoveLabelOnNode_loop api name key err (n + 1) w2"
          using step(4) [OF \<open>r = Inr node\<close> labels] upd Inl by simp
        show ?thesis
          by (rule again [OF res log2 att]) (use False in auto)
      qed
    qed
  qed
qed

lemma api_call_state: "api_call f ev w = (r, w') \<Longrightarrow> f (fst w) = (r, fst w')"
  by (auto simp: api_call_def split: prod.splits)

lemma replay_append:
  "replay api (xs @ ys) s = (case replay api xs s of None \<Rightarrow> None | Some s' \<Rightarrow> replay api ys s')"
proof (induction xs arbitrary: s)
  case Nil
  show ?case by simp
next
  case (Cons c xs)
  show ?case by (cases c) (simp_all add: Cons.IH)
qed

lemma spec_AddLabel_run_bounds:
  "spec_AddLabel_run name key val k attempts res \<Longrightarrow>
     length attempts \<le> k \<and> (0 < k \<longrightarrow> attempts \<noteq> [])
     \<and> (\<forall>a\<in>set attempts. spec_AddLabel_attempt name key val a)"
proof (induction attempts arbitrary: k)
  case Nil
  then show ?case by simp
next
  case (Cons a attempts)
  have "spec_AddLabel_attempt name key val a"
    using Cons.prems
    by (auto simp: spec_AddLabel_attempt_def spec_AddLabel_final_def spec_AddLabel_retry_def)
  moreover have "length attempts \<le> k - 1 \<and> (\<forall>a\<in>set attempts. spec_AddLabel_attempt name key val a)"
    using Cons.prems Cons.IH [of "k - 1"] by auto
  moreover have "0 < k" using Cons.prems by simp
  ultimately show ?case by auto
qed

lemma spec_RemoveLabel_run_bounds:
  "spec_RemoveLabel_run name key k attempts res \<Longrightarrow>
     length attempts \<le> k \<and> (0 < k \<longrightarrow> attempts \<noteq> [])
     \<and> (\<forall>a\<in>set attempts. spec_RemoveLabel_attempt name key a)"
proof (induction attempts arbitrary: k)
  case Nil
  then show ?case by simp
next
  case (Cons a attempts)
  have "spec_RemoveLabel_attempt name key a"
    using Cons.prems
    by (auto simp: spec_RemoveLabel_attempt_def spec_RemoveLabel_final_def spec_RemoveLabel_retry_def)
  moreover have "length attempts \<le> k - 1 \<and> (\<forall>a\<in>set attempts. spec_RemoveLabel_attempt name key a)"
    using Cons.prems Cons.IH [of "k - 1"] by auto
  moreover have "0 < k" using Cons.prems by simp
  ultimately show ?case by auto
qed

lemma AddLabelOnNode_loop_run:
  "\<exists>attempts.
      snd (snd (AddLabelOnNode_loop api name key val None n w)) = snd w @ concat attempts
    \<and> spec_AddLabel_run name key val (k8sLabelUpdateMaxRetries - n) attempts
         (fst (AddLabelOnNode_loop api name key val None n w))
    \<and> replay api (concat attempts) (fst w)
         = Some (fst (snd (AddLabelOnNode_loop api name key val None n w)))"
proof (induction k \<equiv> "k8sLabelUpdateMaxRetries - n" arbitrary: n w)
  case 0
  then have res: "AddLabelOnNode_loop api name key val None n w = (Return None, w)"
    by (simp add: AddLabelOnNode_loop_exit)
  have "snd (snd (AddLabelOnNode_loop api name key val None n w)) = snd w @ concat []
    \<and> spec_AddLabel_run name key val (k8sLabelUpdateMaxRetries - n) []
         (fst (AddLabelOnNode_loop api name key val None n w))
    \<and> replay api (concat []) (fst w)
         = Some (fst (snd (AddLabelOnNode_loop api name key val None n w)))"
    using 0 by (simp add: res)
  then show ?case by blast
next
  case (Suc k)
  let ?res = "AddLabelOnNode_loop api name key val None n w"
  let ?k = "k8sLabelUpdateMaxRetries - n"
  from Suc.hyps(2) have lt: "n < k8sLabelUpdateMaxRetries" and k: "k = k8sLabelUpdateMaxRetries - (n + 1)"
    and pos: "0 < ?k" and pred: "?k - 1 = k8sLabelUpdateMaxRetries - (n + 1)"
    by simp_all
  obtain r w1 where get: "api_call (Nodes_Get api name) (Call_Nodes_Get name) w = (r, w1)"
    by (cases "api_call (Nodes_Get api name) (Call_Nodes_Get name) w")
  have log1: "snd w1 = snd w @ [Call_Nodes_Get name r]"
    by (rule api_call_log [OF get])
  have st1: "Nodes_Get api name (fst w) = (r, fst w1)"
    by (rule api_call_state [OF get])
  note step = AddLabelOnNode_loop_step [OF lt get]
  have one: "\<exists>attempts. snd (snd ?res) = snd w @ concat attempts
               \<and> spec_AddLabel_run name key val ?k attempts (fst ?res)
               \<and> replay api (concat attempts) (fst w) = Some (fst (snd ?res))"
    if "?res = (x, w1)" "spec_AddLabel_final name key val [Call_Nodes_Get name r] x" for x
  proof -
    have "snd (snd ?res) = snd w @ concat [[Call_Nodes_Get name r]]"
      using that(1) log1 by simp
    moreover have "spec_AddLabel_run name key val ?k [[Call_Nodes_Get name r]] (fst ?res)"
      using that pos by simp
    moreover have "replay api (concat [[Call_Nodes_Get name r]]) (fst w) = Some (fst (snd ?res))"
      using that(1) st1 by simp
    ultimately show ?thesis by blast
  qed
  show ?case
  proof (cases r)
    case (Inl msg)
    show ?thesis
      by (rule one [OF step(1) [OF Inl]]) (simp add: spec_AddLabel_final_def Inl)
  next
    case (Inr node)
    show ?thesis
    proof (cases "Labels node")
      case None
      show ?thesis
        by (rule one [OF step(3) [OF Inr None]]) (simp add: spec_AddLabel_final_def Inr None)
    next
      case (Some labels)
      show ?thesis
      proof (cases "labels key = Some val")
        case True
        show ?thesis
          by (rule one [OF step(2) [OF Inr Some True]])
             (simp add: spec_AddLabel_final_def Inr Some True)
      next
        case False
        let ?node = "node\<lparr>Labels := Some (labels(key \<mapsto> val))\<rparr>"
        obtain u w2 where upd: "api_call (Nodes_Update api ?node) (Call_Nodes_Update ?node) w1 = (u, w2)"
          by (cases "api_call (Nodes_Update api ?node) (Call_Nodes_Update ?node) w1")
        let ?a = "[Call_Nodes_Get name (Inr node), Call_Nodes_Update ?node u]"
        have log2: "snd w2 = snd w @ ?a"
          using api_call_log [OF upd] log1 Inr by simp
        have st2: "Nodes_Update api ?node (fst w1) = (u, fst w2)"
          by (rule api_call_state [OF upd])
        have rep: "replay api ?a (fst w) = Some (fst w2)"
          using st1 st2 Inr by simp
        show ?thesis
        proof (cases u)
          case (Inr updated)
          have res: "?res = (Return None, w2)"
            using step(4) [OF \<open>r = Inr node\<close> Some False] upd Inr by simp
          have fin: "spec_AddLabel_final name key val ?a (Return None)"
            using Some False by (auto simp: spec_AddLabel_final_def Inr)
          have "snd (snd ?res) = snd w @ concat [?a]"
            using res log2 by simp
          moreover have "spec_AddLabel_run name key val ?k [?a] (fst ?res)"
            using fin pos by (simp add: res)
          moreover have "replay api (concat [?a]) (fst w) = Some (fst (snd ?res))"
            using rep by (simp add: res)
          ultimately show ?thesis by blast
        next
          case (Inl msg)
          have res: "?res = AddLabelOnNode_loop api name key val None (n + 1) w2"
            using step(5) [OF \<open>r = Inr node\<close> Some False] upd Inl by simp
          have ret: "spec_AddLabel_retry name key val ?a"
            using Some False by (auto simp: spec_AddLabel_retry_def Inl)
          from Suc.hyps(1) [OF k, of w2] obtain attempts where
            l: "snd (snd (AddLabelOnNode_loop api name key val None (n + 1) w2)) = snd w2 @ concat attempts"
            and e: "spec_AddLabel_run name key val (k8sLabelUpdateMaxRetries - (n + 1)) attempts
                      (fst (AddLabelOnNode_loop api name key val None (n + 1) w2))"
            and p: "replay api (concat attempts) (fst w2)
                      = Some (fst (snd (AddLabelOnNode_loop api name key val None (n + 1) w2)))"
            by blast
          have "snd (snd ?res) = snd w @ concat (?a # attempts)"
            using res l log2 by simp
          moreover have "spec_AddLabel_run name key val ?k (?a # attempts) (fst ?res)"
            unfolding res using e ret pos pred
            by (simp del: One_nat_def)
          moreover have "replay api (concat (?a # attempts)) (fst w) = Some (fst (snd ?res))"
            unfolding res using rep p by (simp only: concat.simps replay_append) simp
          ultimately show ?thesis by blast
        qed
      qed
    qed
  qed
qed


lemma RemoveLabelOnNode_loop_run:
  "\<exists>attempts.
      snd (snd (RemoveLabelOnNode_loop api name key None n w)) = snd w @ concat attempts
    \<and> spec_RemoveLabel_run name key (k8sLabelUpdateMaxRetries - n) attempts
         (fst (RemoveLabelOnNode_loop api name key None n w))
    \<and> replay api (concat attempts) (fst w)
         = Some (fst (snd (RemoveLabelOnNode_loop api name key None n w)))"
proof (induction k \<equiv> "k8sLabelUpdateMaxRetries - n" arbitrary: n w)
  case 0
  then have res: "RemoveLabelOnNode_loop api name key None n w = (Return None, w)"
    by (simp add: RemoveLabelOnNode_loop_exit)
  have "snd (snd (RemoveLabelOnNode_loop api name key None n w)) = snd w @ concat []
    \<and> spec_RemoveLabel_run name key (k8sLabelUpdateMaxRetries - n) []
         (fst (RemoveLabelOnNode_loop api name key None n w))
    \<and> replay api (concat []) (fst w)
         = Some (fst (snd (RemoveLabelOnNode_loop api name key None n w)))"
    using 0 by (simp add: res)
  then show ?case by blast
next
  case (Suc k)
  let ?res = "RemoveLabelOnNode_loop api name key None n w"
  let ?k = "k8sLabelUpdateMaxRetries - n"
  from Suc.hyps(2) have lt: "n < k8sLabelUpdateMaxRetries" and k: "k = k8sLabelUpdateMaxRetries - (n + 1)"
    and pos: "0 < ?k" and pred: "?k - 1 = k8sLabelUpdateMaxRetries - (n + 1)"
    by simp_all
  obtain r w1 where get: "api_call (Nodes_Get api name) (Call_Nodes_Get name) w = (r, w1)"
    by (cases "api_call (Nodes_Get api name) (Call_Nodes_Get name) w")
  have log1: "snd w1 = snd w @ [Call_Nodes_Get name r]"
    by (rule api_call_log [OF get])
  have st1: "Nodes_Get api name (fst w) = (r, fst w1)"
    by (rule api_call_state [OF get])
  note step = RemoveLabelOnNode_loop_step [OF lt get]
  have again: "\<exists>attempts. snd (snd ?res) = snd w @ concat attempts
               \<and> spec_RemoveLabel_run name key ?k attempts (fst ?res)
               \<and> replay api (concat attempts) (fst w) = Some (fst (snd ?res))"
    if res: "?res = RemoveLabelOnNode_loop api name key None (n + 1) w'"
      and log: "snd w' = snd w @ a"
      and ret: "spec_RemoveLabel_retry name key a"
      and rep: "replay api a (fst w) = Some (fst w')"
    for w' a
  proof -
    from Suc.hyps(1) [OF k, of w'] obtain attempts where
      l: "snd (snd (RemoveLabelOnNode_loop api name key None (n + 1) w')) = snd w' @ concat attempts"
      and e: "spec_RemoveLabel_run name key (k8sLabelUpdateMaxRetries - (n + 1)) attempts
                (fst (RemoveLabelOnNode_loop api name key None (n + 1) w'))"
      and p: "replay api (concat attempts) (fst w')
                = Some (fst (snd (RemoveLabelOnNode_loop api name key None (n + 1) w')))"
      by blast
    have "snd (snd ?res) = snd w @ concat (a # attempts)"
      using res l log by simp
    moreover have "spec_RemoveLabel_run name key ?k (a # attempts) (fst ?res)"
      unfolding res using e ret pos pred
      by (simp del: One_nat_def)
    moreover have "replay api (concat (a # attempts)) (fst w) = Some (fst (snd ?res))"
      unfolding res using rep p by (simp only: concat.simps replay_append) simp
    ultimately show ?thesis by blast
  qed
  show ?case
  proof (cases r)
    case (Inl msg)
    have res: "?res = (Return (Some (ApiError msg)), w1)"
      by (rule step(1) [OF Inl])
    have "snd (snd ?res) = snd w @ concat [[Call_Nodes_Get name r]]"
      using res log1 by simp
    moreover have "spec_RemoveLabel_run name key ?k [[Call_Nodes_Get name r]] (fst ?res)"
      using pos by (simp add: res spec_RemoveLabel_final_def Inl)
    moreover have "replay api (concat [[Call_Nodes_Get name r]]) (fst w) = Some (fst (snd ?res))"
      using st1 by (simp add: res)
    ultimately show ?thesis by blast
  next
    case (Inr node)
    show ?thesis
    proof (cases "spec_key_absent node key")
      case True
      show ?thesis
      proof (rule again [OF step(2) [OF Inr True] log1])
        show "spec_RemoveLabel_retry name key [Call_Nodes_Get name r]"
          using True by (simp add: spec_RemoveLabel_retry_def Inr)
        show "replay api [Call_Nodes_Get name r] (fst w) = Some (fst w1)"
          using st1 by simp
      qed
    next
      case False
      then obtain labels where labels: "Labels node = Some labels" "labels key \<noteq> None"
        by (auto simp: spec_key_absent_def)
      let ?node = "node\<lparr>Labels := Some (labels(key := None))\<rparr>"
      obtain u w2 where upd: "api_call (Nodes_Update api ?node) (Call_Nodes_Update ?node) w1 = (u, w2)"
        by (cases "api_call (Nodes_Update api ?node) (Call_Nodes_Update ?node) w1")
      let ?a = "[Call_Nodes_Get name (Inr node), Call_Nodes_Update ?node u]"
      have log2: "snd w2 = snd w @ ?a"
        using api_call_log [OF upd] log1 Inr by simp
      have st2: "Nodes_Update api ?node (fst w1) = (u, fst w2)"
        by (rule api_call_state [OF upd])
      have rep: "replay api ?a (fst w) = Some (fst w2)"
        using st1 st2 Inr by simp
      show ?thesis
      proof (cases u)
        case (Inr updated)
        have res: "?res = (Return None, w2)"
          using step(3) [OF \<open>r = Inr node\<close> labels] upd Inr by simp
        have fin: "spec_RemoveLabel_final name key ?a (Return None)"
          using labels by (auto simp: spec_RemoveLabel_final_def Inr)
        have "snd (snd ?res) = snd w @ concat [?a]"
          using res log2 by simp
        moreover have "spec_RemoveLabel_run name key ?k [?a] (fst ?res)"
          using fin pos by (simp add: res)
        moreover have "replay api (concat [?a]) (fst w) = Some (fst (snd ?res))"
          using rep by (simp add: res)
        ultimately show ?thesis by blast
      next
        case (Inl msg)
        have res: "?res = RemoveLabelOnNode_loop api name key None (n + 1) w2"
          using step(4) [OF \<open>r = Inr node\<close> labels] upd Inl by simp
        have ret: "spec_RemoveLabel_retry name key ?a"
          using labels by (auto simp: spec_RemoveLabel_retry_def Inl)
        show ?thesis
          by (rule again [OF res log2 ret rep])
      qed
    qed
  qed
qed

text \<open>
  C8. \<^verbatim>\<open>AddLabelOnNode\<close> and \<^verbatim>\<open>RemoveLabelOnNode\<close>, once the client is obtained: the
  calls they make are those of at least one and at most five attempts, one after the other
  with nothing in between. Every attempt starts with a read of the node, and a write, if
  the attempt makes one, writes the node returned by the read of that same attempt, with
  the label set or removed. The response of every call is the one the API gives in the
  state that the call before it left. An attempt whose write is refused (for the removal
  also one whose read finds the key absent) is followed by another attempt, up to the
  fifth; the run ends with the first attempt whose read fails, that has nothing to write
  (for the addition: the label is already set, or the label map is nil and the assignment
  panics), or whose write is accepted, and the result is nil unless the read failed or the
  assignment panicked.
\<close>

theorem C8_label_retry:
  assumes "GetK8sClient api w = ((client, None), w1)"
  shows "(\<exists>attempts. snd (snd (AddLabelOnNode api name key val w)) = snd w1 @ concat attempts
            \<and> spec_AddLabel_run name key val k8sLabelUpdateMaxRetries attempts
                 (fst (AddLabelOnNode api name key val w))
            \<and> replay api (concat attempts) (fst w1) = Some (fst (snd (AddLabelOnNode api name key val w)))
            \<and> attempts \<noteq> []
            \<and> length attempts \<le> k8sLabelUpdateMaxRetries
            \<and> (\<forall>a\<in>set attempts. spec_AddLabel_attempt name key val a))
       \<and> (\<exists>attempts. snd (snd (RemoveLabelOnNode api name key w)) = snd w1 @ concat attempts
            \<and> spec_RemoveLabel_run name key k8sLabelUpdateMaxRetries attempts
                 (fst (RemoveLabelOnNode api name key w))
            \<and> replay api (concat attempts) (fst w1) = Some (fst (snd (RemoveLabelOnNode api name key w)))
            \<and> attempts \<noteq> []
            \<and> length attempts \<le> k8sLabelUpdateMaxRetries
            \<and> (\<forall>a\<in>set attempts. spec_RemoveLabel_attempt name key a))
       \<and> k8sLabelUpdateMaxRetries = 5"
proof -
  have five: "k8sLabelUpdateMaxRetries - 0 = k8sLabelUpdateMaxRetries"
    by simp
  have pos: "0 < k8sLabelUpdateMaxRetries"
    by (simp add: k8sLabelUpdateMaxRetries_def)
  have a: "AddLabelOnNode api name key val w = AddLabelOnNode_loop api name key val None 0 w1"
    using assms by (simp add: AddLabelOnNode_def)
  have r: "RemoveLabelOnNode api name key w = RemoveLabelOnNode_loop api name key None 0 w1"
    using assms by (simp add: RemoveLabelOnNode_def)
  from AddLabelOnNode_loop_run [of api name key val 0 w1]
  obtain attempts where
    l: "snd (snd (AddLabelOnNode api name key val w)) = snd w1 @ concat attempts"
    and e: "spec_AddLabel_run name key val k8sLabelUpdateMaxRetries attempts
              (fst (AddLabelOnNode api name key val w))"
    and p: "replay api (concat attempts) (fst w1) = Some (fst (snd (AddLabelOnNode api name key val w)))"
    unfolding a five by blast
  from spec_AddLabel_run_bounds [OF e] pos
  have "attempts \<noteq> []" "length attempts \<le> k8sLabelUpdateMaxRetries"
    "\<forall>a\<in>set attempts. spec_AddLabel_attempt name key val a"
    by blast+
  with l e p have add: "\<exists>attempts. snd (snd (AddLabelOnNode api name key val w)) = snd w1 @ concat attempts
            \<and> spec_AddLabel_run name key val k8sLabelUpdateMaxRetries attempts
                 (fst (AddLabelOnNode api name key val w))
            \<and> replay api (concat attempts) (fst w1) = Some (fst (snd (AddLabelOnNode api name key val w)))
            \<and> attempts \<noteq> []
            \<and> length attempts \<le> k8sLabelUpdateMaxRetries
            \<and> (\<forall>a\<in>set attempts. spec_AddLabel_attempt name key val a)"
    by blast
  from RemoveLabelOnNode_loop_run [of api name key 0 w1]
  obtain attempts where
    l: "snd (snd (RemoveLabelOnNode api name key w)) = snd w1 @ concat attempts"
    and e: "spec_RemoveLabel_run name key k8sLabelUpdateMaxRetries attempts
              (fst (RemoveLabelOnNode api name key w))"
    and p: "replay api (concat attempts) (fst w1) = Some (fst (snd (RemoveLabelOnNode api name key w)))"
    unfolding r five by blast
  from spec_RemoveLabel_run_bounds [OF e] pos
  have "attempts \<noteq> []" "length attempts \<le> k8sLabelUpdateMaxRetries"
    "\<forall>a\<in>set attempts. spec_RemoveLabel_attempt name key a"
    by blast+
  with l e p have rem: "\<exists>attempts. snd (snd (RemoveLabelOnNode api name key w)) = snd w1 @ concat attempts
            \<and> spec_RemoveLabel_run name key k8sLabelUpdateMaxRetries attempts
                 (fst (RemoveLabelOnNode api name key w))
            \<and> replay api (concat attempts) (fst w1) = Some (fst (snd (RemoveLabelOnNode api name key w)))
            \<and> attempts \<noteq> []
            \<and> length attempts \<le> k8sLabelUpdateMaxRetries
            \<and> (\<forall>a\<in>set attempts. spec_RemoveLabel_attempt name key a)"
    by blast
  from add rem show ?thesis
    by (simp add: k8sLabelUpdateMaxRetries_def)
qed

theorem C8_label_retry_witness:
  "snd (snd (AddLabelOnNode (scripted_api contended) ''node1'' ''gpu'' ''true'' (0, [])))
     = [Call_InClusterConfig (Inr rest_Config), Call_NewForConfig (Inr (Some Clientset))]
         @ concat contended_add
   \<and> length contended_add = 3
   \<and> spec_AddLabel_run ''node1'' ''gpu'' ''true'' 5 contended_add (Return None)
   \<and> (\<exists>attempts. concat attempts = concat contended_add
         \<and> spec_AddLabel_run ''node1'' ''gpu'' ''true'' 5 attempts (Return None)
         \<and> replay (scripted_api contended) (concat attempts) 2 = Some 8)
   \<and> snd (snd (RemoveLabelOnNode (scripted_api contended) ''node1'' ''zone'' (0, [])))
     = [Call_InClusterConfig (Inr rest_Config), Call_NewForConfig (Inr (Some Clientset))]
         @ concat contended_remove
   \<and> length contended_remove = 3
   \<and> spec_RemoveLabel_run ''node1'' ''zone'' 5 contended_remove (Return None)
   \<and> (\<exists>attempts. concat attempts = concat contended_remove
         \<and> spec_RemoveLabel_run ''node1'' ''zone'' 5 attempts (Return None)
         \<and> replay (scripted_api contended) (concat attempts) 2 = Some 8)"
proof -
  let ?api = "scripted_api contended"
  let ?l1 = "[Call_InClusterConfig (Inr rest_Config), Call_NewForConfig (Inr (Some Clientset))]"
  have h1: "GetK8sClient ?api (0, []) = ((Some Clientset, None), (2, ?l1))"
    by (simp add: run_simps contended_def)
  have add: "AddLabelOnNode ?api ''node1'' ''gpu'' ''true'' (0, [])
               = (Return None, (8, ?l1 @ concat contended_add))"
    by (simp add: AddLabelOnNode_def AddLabelOnNode_loop.simps run_simps contended_def
          contended_add_def node1_def node1_relabelled_def map_index_def map_assign_def
          k8sLabelUpdateMaxRetries_def)
  have rem: "RemoveLabelOnNode ?api ''node1'' ''zone'' (0, [])
               = (Return None, (8, ?l1 @ concat contended_remove))"
    by (simp add: RemoveLabelOnNode_def RemoveLabelOnNode_loop.simps run_simps contended_def
          contended_remove_def node1_def node1_relabelled_def map_index_def map_delete_def
          k8sLabelUpdateMaxRetries_def)
  note run = C8_label_retry [OF h1]
  have a: "\<exists>attempts. concat attempts = concat contended_add
         \<and> spec_AddLabel_run ''node1'' ''gpu'' ''true'' 5 attempts (Return None)
         \<and> replay ?api (concat attempts) 2 = Some 8"
    using run [of "''node1''" "''gpu''" "''true''", THEN conjunct1]
    by (simp add: add k8sLabelUpdateMaxRetries_def) metis
  have b: "\<exists>attempts. concat attempts = concat contended_remove
         \<and> spec_RemoveLabel_run ''node1'' ''zone'' 5 attempts (Return None)
         \<and> replay ?api (concat attempts) 2 = Some 8"
    using run [of "''node1''" "''zone''" "''true''", THEN conjunct2, THEN conjunct1]
    by (simp add: rem k8sLabelUpdateMaxRetries_def) metis
  have c: "length contended_add = 3" "length contended_remove = 3"
    by (simp_all add: contended_add_def contended_remove_def)
  have d: "spec_AddLabel_run ''node1'' ''gpu'' ''true'' 5 contended_add (Return None)"
    by (simp add: contended_add_def spec_AddLabel_retry_def spec_AddLabel_final_def
          node1_def node1_relabelled_def)
  have e: "spec_RemoveLabel_run ''node1'' ''zone'' 5 contended_remove (Return None)"
    by (simp add: contended_remove_def spec_RemoveLabel_retry_def spec_RemoveLabel_final_def
          spec_key_absent_def node1_def node1_relabelled_def)
  from a b c d e show ?thesis by (simp add: add rem)
qed

text \<open>
  C9. When the client is not obtained, \<^verbatim>\<open>AddLabelOnNode\<close> and \<^verbatim>\<open>RemoveLabelOnNode\<close>
  return that error. Otherwise an error they return is the error of a failed read of the
  node, which is then the last call made; a run with five failed writes returns nil; and a
  run of \<^verbatim>\<open>RemoveLabelOnNode\<close> in which every read succeeds and finds the key absent
  writes nothing and returns nil.
\<close>

theorem C9_update_error_dropped:
  "(GetK8sClient api w = ((client, Some e), w1) \<longrightarrow>
       AddLabelOnNode api name key val w = (Return (Some e), w1)
       \<and> RemoveLabelOnNode api name key w = (Return (Some e), w1))
   \<and> (GetK8sClient api w = ((client, None), w1) \<longrightarrow>
       (\<exists>calls. snd (snd (AddLabelOnNode api name key val w)) = snd w1 @ calls
          \<and> (\<forall>e. fst (AddLabelOnNode api name key val w) = Return (Some e) \<longrightarrow>
                (\<exists>msg. e = ApiError msg \<and> calls \<noteq> []
                   \<and> last calls = Call_Nodes_Get name (Inl msg)))
          \<and> (length (filter failed_update calls) = 5 \<longrightarrow>
                fst (AddLabelOnNode api name key val w) = Return None))
       \<and> (\<exists>calls. snd (snd (RemoveLabelOnNode api name key w)) = snd w1 @ calls
          \<and> (\<forall>e. fst (RemoveLabelOnNode api name key w) = Return (Some e) \<longrightarrow>
                (\<exists>msg. e = ApiError msg \<and> calls \<noteq> []
                   \<and> last calls = Call_Nodes_Get name (Inl msg)))
          \<and> (length (filter failed_update calls) = 5 \<longrightarrow>
                fst (RemoveLabelOnNode api name key w) = Return None)
          \<and> ((\<forall>r. Call_Nodes_Get name r \<in> set calls \<longrightarrow>
                   (\<exists>node. r = Inr node \<and> spec_key_absent node key))
              \<longrightarrow> fst (RemoveLabelOnNode api name key w) = Return None
                  \<and> filter is_update calls = [])))"
proof (intro conjI impI)
  assume "GetK8sClient api w = ((client, Some e), w1)"
  then show "AddLabelOnNode api name key val w = (Return (Some e), w1)"
    and "RemoveLabelOnNode api name key w = (Return (Some e), w1)"
    by (simp_all add: AddLabelOnNode_def RemoveLabelOnNode_def)
next
  assume c: "GetK8sClient api w = ((client, None), w1)"
  have five: "k8sLabelUpdateMaxRetries - 0 = 5"
    by (simp add: k8sLabelUpdateMaxRetries_def)
  have a: "AddLabelOnNode api name key val w = AddLabelOnNode_loop api name key val None 0 w1"
    using c by (simp add: AddLabelOnNode_def)
  have r: "RemoveLabelOnNode api name key w = RemoveLabelOnNode_loop api name key None 0 w1"
    using c by (simp add: RemoveLabelOnNode_def)
  from AddLabelOnNode_loop_exec [of api name key val None 0 w1]
  obtain attempts where
    "snd (snd (AddLabelOnNode api name key val w)) = snd w1 @ concat attempts"
    "AddLabel_exec name key val None 5 (fst (AddLabelOnNode api name key val w)) attempts"
    unfolding a five by blast
  then show "\<exists>calls. snd (snd (AddLabelOnNode api name key val w)) = snd w1 @ calls
          \<and> (\<forall>e. fst (AddLabelOnNode api name key val w) = Return (Some e) \<longrightarrow>
                (\<exists>msg. e = ApiError msg \<and> calls \<noteq> []
                   \<and> last calls = Call_Nodes_Get name (Inl msg)))
          \<and> (length (filter failed_update calls) = 5 \<longrightarrow>
                fst (AddLabelOnNode api name key val w) = Return None)"
    unfolding AddLabel_exec_def by (intro exI [of _ "concat attempts"]) simp
  from RemoveLabelOnNode_loop_exec [of api name key None 0 w1]
  obtain attempts where
    "snd (snd (RemoveLabelOnNode api name key w)) = snd w1 @ concat attempts"
    "RemoveLabel_exec name key None 5 (fst (RemoveLabelOnNode api name key w)) attempts"
    unfolding r five by blast
  then show "\<exists>calls. snd (snd (RemoveLabelOnNode api name key w)) = snd w1 @ calls
          \<and> (\<forall>e. fst (RemoveLabelOnNode api name key w) = Return (Some e) \<longrightarrow>
                (\<exists>msg. e = ApiError msg \<and> calls \<noteq> []
                   \<and> last calls = Call_Nodes_Get name (Inl msg)))
          \<and> (length (filter failed_update calls) = 5 \<longrightarrow>
                fst (RemoveLabelOnNode api name key w) = Return None)
          \<and> ((\<forall>r. Call_Nodes_Get name r \<in> set calls \<longrightarrow>
                   (\<exists>node. r = Inr node \<and> spec_key_absent node key))
              \<longrightarrow> fst (RemoveLabelOnNode api name key w) = Return None
                  \<and> filter is_update calls = [])"
    unfolding RemoveLabel_exec_def by (intro exI [of _ "concat attempts"]) simp
qed

theorem C9_update_error_dropped_witness:
  "fst (AddLabelOnNode (scripted_api conflict) ''node1'' ''gpu'' ''true'' (0, [])) = Return None
   \<and> length (filter failed_update
        (snd (snd (AddLabelOnNode (scripted_api conflict) ''node1'' ''gpu'' ''true'' (0, []))))) = 5
   \<and> fst (RemoveLabelOnNode (scripted_api conflict) ''node1'' ''zone'' (0, [])) = Return None
   \<and> length (filter failed_update
        (snd (snd (RemoveLabelOnNode (scripted_api conflict) ''node1'' ''zone'' (0, []))))) = 5
   \<and> fst (RemoveLabelOnNode (scripted_api conflict) ''node1'' ''gpu'' (0, [])) = Return None
   \<and> filter is_update
        (snd (snd (RemoveLabelOnNode (scripted_api conflict) ''node1'' ''gpu'' (0, [])))) = []"
proof -
  let ?api = "scripted_api conflict"
  let ?l1 = "[Call_InClusterConfig (Inr rest_Config), Call_NewForConfig (Inr (Some Clientset))]"
  let ?reads = "replicate 5 (Call_Nodes_Get ''node1'' (Inr node1))"
  have h1: "GetK8sClient ?api (0, []) = ((Some Clientset, None), (2, ?l1))"
    by (simp add: run_simps conflict_def)
  have add: "length (filter failed_update
        (snd (snd (AddLabelOnNode ?api ''node1'' ''gpu'' ''true'' (0, []))))) = 5"
    by (simp add: AddLabelOnNode_def AddLabelOnNode_loop.simps run_simps conflict_def node1_def
          map_index_def map_assign_def k8sLabelUpdateMaxRetries_def)
  have rem: "length (filter failed_update
        (snd (snd (RemoveLabelOnNode ?api ''node1'' ''zone'' (0, []))))) = 5"
    by (simp add: RemoveLabelOnNode_def RemoveLabelOnNode_loop.simps run_simps conflict_def node1_def
          map_index_def map_delete_def k8sLabelUpdateMaxRetries_def)
  have absent: "snd (snd (RemoveLabelOnNode ?api ''node1'' ''gpu'' (0, []))) = ?l1 @ ?reads"
    by (simp add: RemoveLabelOnNode_def RemoveLabelOnNode_loop.simps run_simps conflict_def
          map_index_def node1_def k8sLabelUpdateMaxRetries_def numeral_eq_Suc)
  have key: "spec_key_absent node1 ''gpu''"
    by (simp add: spec_key_absent_def node1_def)
  note run = C9_update_error_dropped [of ?api "(0, [])" "Some Clientset" _ "(2, ?l1)",
               THEN conjunct2, THEN mp, OF h1]
  have a: "fst (AddLabelOnNode ?api ''node1'' ''gpu'' ''true'' (0, [])) = Return None"
  proof -
    from run [of "''node1''" "''gpu''" "''true''", THEN conjunct1]
    obtain calls where
      c: "snd (snd (AddLabelOnNode ?api ''node1'' ''gpu'' ''true'' (0, []))) = snd (2::nat, ?l1) @ calls"
      and i: "length (filter failed_update calls) = 5 \<longrightarrow>
                fst (AddLabelOnNode ?api ''node1'' ''gpu'' ''true'' (0, [])) = Return None"
      by blast
    from add have "length (filter failed_update calls) = 5"
      unfolding c by simp
    with i show ?thesis by blast
  qed
  have b: "fst (RemoveLabelOnNode ?api ''node1'' ''zone'' (0, [])) = Return None"
  proof -
    from run [of "''node1''" "''zone''" "''true''", THEN conjunct2]
    obtain calls where
      c: "snd (snd (RemoveLabelOnNode ?api ''node1'' ''zone'' (0, []))) = snd (2::nat, ?l1) @ calls"
      and i: "length (filter failed_update calls) = 5 \<longrightarrow>
                fst (RemoveLabelOnNode ?api ''node1'' ''zone'' (0, [])) = Return None"
      by blast
    from rem have "length (filter failed_update calls) = 5"
      unfolding c by simp
    with i show ?thesis by blast
  qed
  have c: "fst (RemoveLabelOnNode ?api ''node1'' ''gpu'' (0, [])) = Return None
           \<and> filter is_update (snd (snd (RemoveLabelOnNode ?api ''node1'' ''gpu'' (0, [])))) = []"
  proof -
    from run [of "''node1''" "''gpu''" "''true''", THEN conjunct2]
    obtain calls where
      c: "snd (snd (RemoveLabelOnNode ?api ''node1'' ''gpu'' (0, []))) = snd (2::nat, ?l1) @ calls"
      and i: "(\<forall>r. Call_Nodes_Get ''node1'' r \<in> set calls \<longrightarrow>
                   (\<exists>node. r = Inr node \<and> spec_key_absent node ''gpu''))
              \<longrightarrow> fst (RemoveLabelOnNode ?api ''node1'' ''gpu'' (0, [])) = Return None
                  \<and> filter is_update calls = []"
      by blast
    from c absent have calls: "calls = ?reads" by simp
    have "\<forall>r. Call_Nodes_Get ''node1'' r \<in> set calls \<longrightarrow>
                   (\<exists>node. r = Inr node \<and> spec_key_absent node ''gpu'')"
      using key unfolding calls by simp
    with i have "fst (RemoveLabelOnNode ?api ''node1'' ''gpu'' (0, [])) = Return None"
      "filter is_update calls = []"
      by blast+
    then show ?thesis unfolding c by simp
  qed
  from a add b rem c show ?thesis by blast
qed

end
